theory Spec2Isabelle
  imports Main "HOL-Library.Sublist"
begin

section \<open>Strings: the library calls the delivery client makes\<close>

text \<open>
  Go strings are byte sequences; \<open>string\<close> (a list of \<open>char\<close>) is read the same way.
  An \<open>error\<close> value is represented by its message, \<open>nil\<close> by \<open>None\<close>.
\<close>

type_synonym error = string

text \<open>\<open>strings.Index s sep\<close>: the byte offset of the first occurrence of \<open>sep\<close> in \<open>s\<close>.\<close>

fun Index :: "string \<Rightarrow> string \<Rightarrow> nat option" where
  "Index [] sep = (if sep = [] then Some 0 else None)"
| "Index (c # cs) sep =
     (if prefix sep (c # cs) then Some 0 else map_option Suc (Index cs sep))"

text \<open>
  The loop of \<open>strings.SplitN\<close> (\<open>genSplit\<close>) for a non-empty separator: at most \<open>k\<close>
  cuts, each at the first occurrence left; the remainder is the last part.
\<close>

fun genSplit_loop :: "string \<Rightarrow> string \<Rightarrow> nat \<Rightarrow> string list" where
  "genSplit_loop s sep 0 = [s]"
| "genSplit_loop s sep (Suc k) =
     (case Index s sep of
        None \<Rightarrow> [s]
      | Some m \<Rightarrow> take m s # genSplit_loop (drop (m + length sep) s) sep k)"

text \<open>
  \<open>strings.SplitN s sep n\<close> for \<open>n \<ge> 0\<close> and a non-empty separator (the program only calls it
  with \<open>"--"\<close> and \<open>2\<close>): \<open>n = 0\<close> gives no parts, and \<open>n\<close> is capped at \<open>len(s) + 1\<close>.
\<close>

definition SplitN :: "string \<Rightarrow> string \<Rightarrow> nat \<Rightarrow> string list" where
  "SplitN s sep n =
     (if n = 0 then []
      else genSplit_loop s sep ((if n > length s + 1 then length s + 1 else n) - 1))"

text \<open>\<open>strings.Contains\<close>.\<close>

definition Contains :: "string \<Rightarrow> string \<Rightarrow> bool" where
  "Contains s sub = (Index s sub \<noteq> None)"

text \<open>The verb \<open>%d\<close> of \<open>fmt\<close> on an \<open>int\<close>: decimal digits, with a minus sign below zero.\<close>

fun digits :: "nat \<Rightarrow> string" where
  "digits n =
     (if n < 10 then [''0123456789'' ! n]
      else digits (n div 10) @ [''0123456789'' ! (n mod 10)])"

declare digits.simps [simp del]

definition fmt_d :: "int \<Rightarrow> string" where
  "fmt_d i = (if i < 0 then ''-'' @ digits (nat (- i)) else digits (nat i))"

section \<open>The discovery data model\<close>

record ClusterInfo =
  ci_Name :: string
  ci_Version :: string

record NodeInfo =
  ni_Name :: string
  Roles :: "string list"
  Status :: string
  Version :: string
  ni_Addresses :: "string \<rightharpoonup> string"

record DiscoveryResult =
  Timestamp :: int
  ClusterInfo :: ClusterInfo
  NodeCount :: int
  Nodes :: "NodeInfo list"
  Duration :: string

text \<open>The parts of a Kubernetes \<open>v1.Node\<close> that the collector reads.\<close>

record Taint =
  Key :: string
  Value :: string
  Effect :: string

record NodeCondition =
  cond_Type :: string
  cond_Status :: string

record NodeAddress =
  addr_Type :: string
  Address :: string

record Node =
  Name :: string
  Labels :: "string \<rightharpoonup> string"
  Taints :: "Taint list"
  Conditions :: "NodeCondition list"
  Addresses :: "NodeAddress list"
  KubeletVersion :: string

definition NodeReady :: string where
  "NodeReady = ''Ready''"

definition ConditionTrue :: string where
  "ConditionTrue = ''True''"

definition label_control_plane :: string where
  "label_control_plane = ''node-role.kubernetes.io/control-plane''"

definition label_master :: string where
  "label_master = ''node-role.kubernetes.io/master''"

definition label_worker :: string where
  "label_worker = ''node-role.kubernetes.io/worker''"

definition label_etcd :: string where
  "label_etcd = ''node-role.kubernetes.io/etcd''"

section \<open>The node classifier\<close>

text \<open>The taint scan of \<open>getNodeRoles\<close>: the first matching taint appends and breaks.\<close>

fun scanTaints :: "Taint list \<Rightarrow> string list \<Rightarrow> string list" where
  "scanTaints [] roles = roles"
| "scanTaints (taint # rest) roles =
     (if Key taint = label_control_plane \<or> Key taint = label_master
      then roles @ [''control-plane'']
      else scanTaints rest roles)"

text \<open>\<open>getNodeRoles\<close>, statement by statement; each \<open>let\<close> is one \<open>if\<close> of the source.\<close>

definition getNodeRoles :: "Node \<Rightarrow> string list" where
  "getNodeRoles node =
     (let roles0 = [];
          roles1 = (if Labels node label_control_plane \<noteq> None
                    then roles0 @ [''control-plane''] else roles0);
          roles2 = (if Labels node label_master \<noteq> None
                    then (if \<not> List.member roles1 ''control-plane''
                          then roles1 @ [''master''] else roles1)
                    else roles1);
          roles3 = (if Labels node label_worker \<noteq> None
                    then roles2 @ [''worker''] else roles2);
          roles4 = (if Labels node label_etcd \<noteq> None
                    then roles3 @ [''etcd''] else roles3);
          roles5 = (if length roles4 = 0 then scanTaints (Taints node) roles4 else roles4);
          roles6 = (if length roles5 = 0 then roles5 @ [''worker''] else roles5)
      in roles6)"

text \<open>The condition scan of \<open>getNodeStatus\<close>: the first \<open>Ready\<close> condition returns.\<close>

fun scanConditions :: "NodeCondition list \<Rightarrow> string" where
  "scanConditions [] = ''Unknown''"
| "scanConditions (condition # rest) =
     (if cond_Type condition = NodeReady
      then (if cond_Status condition = ConditionTrue then ''Ready'' else ''NotReady'')
      else scanConditions rest)"

definition getNodeStatus :: "Node \<Rightarrow> string" where
  "getNodeStatus node = scanConditions (Conditions node)"

section \<open>The cluster inventory collector\<close>

text \<open>
  The cluster API is a collaborator: the model takes the outcome of its two read queries.
  \<open>ServerVersion\<close> returns a pointer and an error, so a \<open>nil\<close> version without an error is
  a possible answer.
\<close>

record VersionInfo =
  GitVersion :: string

record KubernetesClient =
  Nodes_List :: "error + Node list"
  ServerVersion :: "error + VersionInfo option"

record Service =
  client :: KubernetesClient
  clusterName :: string

text \<open>The readings of the clock taken during one collection.\<close>

record Clock =
  now :: int
  since :: string

definition NewService :: "KubernetesClient \<Rightarrow> string \<Rightarrow> Service" where
  "NewService cl cname = \<lparr>client = cl, clusterName = cname\<rparr>"

definition getClusterInfo :: "Service \<Rightarrow> ClusterInfo" where
  "getClusterInfo s =
     (let info = \<lparr>ci_Name = clusterName s, ci_Version = ''unknown''\<rparr>
      in case ServerVersion (client s) of
           Inr (Some version) \<Rightarrow> info\<lparr>ci_Version := GitVersion version\<rparr>
         | Inr None \<Rightarrow> info
         | Inl err \<Rightarrow> info)"

text \<open>The address loop: a later entry of the same type overwrites an earlier one.\<close>

fun fillAddresses :: "NodeAddress list \<Rightarrow> (string \<rightharpoonup> string) \<Rightarrow> (string \<rightharpoonup> string)" where
  "fillAddresses [] m = m"
| "fillAddresses (address # rest) m =
     fillAddresses rest (m(addr_Type address \<mapsto> Address address))"

definition nodeInfoOf :: "Node \<Rightarrow> NodeInfo" where
  "nodeInfoOf node =
     (let nodeInfo = \<lparr>ni_Name = Name node, Roles = getNodeRoles node,
                       Status = getNodeStatus node, Version = KubeletVersion node,
                       ni_Addresses = Map.empty\<rparr>
      in nodeInfo\<lparr>ni_Addresses := fillAddresses (Addresses node) (ni_Addresses nodeInfo)\<rparr>)"

text \<open>The node loop of \<open>DiscoverNodes\<close>: one append per item, in order.\<close>

fun appendNodes :: "Node list \<Rightarrow> DiscoveryResult \<Rightarrow> DiscoveryResult" where
  "appendNodes [] result = result"
| "appendNodes (node # rest) result =
     appendNodes rest (result\<lparr>Nodes := Nodes result @ [nodeInfoOf node]\<rparr>)"

definition DiscoverNodes :: "Service \<Rightarrow> Clock \<Rightarrow> error + DiscoveryResult" where
  "DiscoverNodes s clk =
     (let clusterInfo = getClusterInfo s
      in case Nodes_List (client s) of
           Inl err \<Rightarrow> Inl err
         | Inr items \<Rightarrow>
             Inr (appendNodes items
                    \<lparr>Timestamp = now clk, ClusterInfo = clusterInfo,
                     NodeCount = int (length items), Nodes = [],
                     Duration = since clk\<rparr>))"

section \<open>The delivery client\<close>

record ElchiConfig =
  Token :: string
  APIEndpoint :: string
  InsecureSkipVerify :: bool

record LogConfig =
  Level :: string
  Format :: string
  Output :: string

record Config =
  Elchi :: ElchiConfig
  Log :: LogConfig
  DiscoveryInterval :: int
  ClusterName :: string

text \<open>The transport settings fixed by \<open>NewClient\<close>; the timeout is in seconds.\<close>

record HTTPClient =
  TLS_InsecureSkipVerify :: bool
  Timeout :: nat

text \<open>\<open>initialCompleted\<close> is the atomic boolean of the source; its zero value is false.\<close>

record Client =
  httpClient :: HTTPClient
  config :: Config
  initialCompleted :: bool

record DiscoveryPayload =
  Project :: string
  Data :: DiscoveryResult

text \<open>\<open>APIResponse\<close> without its untyped \<open>Result\<close> field, which the client never reads.\<close>

record APIResponse =
  Success :: bool
  Message :: string
  Error :: string

record Request =
  Method :: string
  URL :: string
  Header :: "string \<rightharpoonup> string"
  Body :: string

text \<open>A response: its status, its \<open>Location\<close> header (empty when absent) and its body.\<close>

record Response =
  StatusCode :: int
  Location :: string
  resp_Body :: string

text \<open>
  What lies outside the client: the JSON encoder and decoder, the URL check of
  \<open>http.NewRequest\<close>, one round trip of the transport (a request sent, a response or an
  error back), and the URL functions the HTTP client uses when it follows a redirect:
  resolving a \<open>Location\<close> against the URL of the request, the host name of a URL, and
  the \<open>Referer\<close> for a hop from one URL to the next (empty for none). Each is a function
  of its arguments.
\<close>

record World =
  json_Marshal :: "DiscoveryPayload \<Rightarrow> error + string"
  http_NewRequest :: "string \<Rightarrow> string \<Rightarrow> error option"
  RoundTrip :: "Request \<Rightarrow> error + Response"
  URL_Parse :: "string \<Rightarrow> string \<Rightarrow> error + string"
  URL_Hostname :: "string \<Rightarrow> string"
  refererForURL :: "string \<Rightarrow> string \<Rightarrow> string"
  json_Decode :: "string \<Rightarrow> error + APIResponse"

text \<open>
  The steps a send has gone through, in order: the tenant derivation, the serialization,
  each request handed to the HTTP client, and the decoding of a response body.
\<close>

datatype step = DeriveTenant | Marshal | Do Request | Decode

definition extractProjectFromToken :: "string \<Rightarrow> string" where
  "extractProjectFromToken token =
     (let parts = SplitN token ''--'' 2
      in if length parts = 2 then parts ! 1 else '''')"

definition NewClient :: "Config \<Rightarrow> Client" where
  "NewClient cfg =
     \<lparr>httpClient = \<lparr>TLS_InsecureSkipVerify = InsecureSkipVerify (Elchi cfg), Timeout = 15\<rparr>,
      config = cfg,
      initialCompleted = False\<rparr>"

definition GetDiscoveryPayload :: "Client \<Rightarrow> DiscoveryResult \<Rightarrow> error + DiscoveryPayload" where
  "GetDiscoveryPayload c result =
     (let projectID = extractProjectFromToken (Token (Elchi (config c)))
      in if projectID = ''''
         then Inl ''invalid token format: expected 'uuid--project' format''
         else Inr \<lparr>Project = projectID, Data = result\<rparr>)"

text \<open>
  \<open>Header.Set\<close>: the value stored under the key replaces any earlier one. The library
  stores and looks up keys in one canonical spelling; the model keeps each key as the
  source writes it and looks it up under the same spelling.
\<close>

definition Header_Set :: "string \<Rightarrow> string \<Rightarrow> Request \<Rightarrow> Request" where
  "Header_Set k v req = req\<lparr>Header := (Header req)(k \<mapsto> v)\<rparr>"

text \<open>The four header assignments of \<open>sendDiscoveryResult\<close>, in the order of the source.\<close>

definition setHeaders :: "Client \<Rightarrow> Request \<Rightarrow> Request" where
  "setHeaders c req0 =
     (let req1 = Header_Set ''Content-Type'' ''application/json'' req0;
          req2 = Header_Set ''from-elchi'' ''yes'' req1;
          req3 = (if initialCompleted c
                  then Header_Set ''initial'' ''false'' req2
                  else Header_Set ''initial'' ''true'' req2);
          req4 = (if Token (Elchi (config c)) \<noteq> ''''
                  then Header_Set ''Authorization''
                         (''Bearer '' @ Token (Elchi (config c))) req3
                  else req3)
      in req4)"

subsection \<open>The HTTP client: \<open>Do\<close> follows redirects\<close>

text \<open>
  \<open>NewClient\<close> builds the \<open>http.Client\<close> without a \<open>CheckRedirect\<close> function and without a
  cookie jar, so \<open>httpClient.Do\<close> is the library's default: it sends the request and, on a
  redirect status, builds and sends the next request itself, up to ten requests in all.
  The model follows \<open>net/http\<close> of the Go 1.23 toolchain the repository builds with.

  \<open>redirectBehavior\<close>: the method of the next request, whether to redirect, and whether
  the body is sent again. The request was built from a byte buffer, so its body can
  always be replayed.
\<close>

definition redirectBehavior :: "string \<Rightarrow> int \<Rightarrow> string \<times> bool \<times> bool" where
  "redirectBehavior reqMethod status =
     (if status = 301 \<or> status = 302 \<or> status = 303
      then ((if reqMethod \<noteq> ''GET'' \<and> reqMethod \<noteq> ''HEAD'' then ''GET'' else reqMethod),
            True, False)
      else if status = 307 \<or> status = 308
      then (reqMethod, True, True)
      else ('''', False, False))"

text \<open>\<open>isDomainOrSubdomain sub parent\<close>: equal, or \<open>sub\<close> ends in a dot followed by \<open>parent\<close>.\<close>

definition isDomainOrSubdomain :: "string \<Rightarrow> string \<Rightarrow> bool" where
  "isDomainOrSubdomain sub parent =
     (if sub = parent then True
      else if \<not> suffix parent sub then False
      else sub ! (length sub - length parent - 1) = CHR ''.'')"

text \<open>
  \<open>shouldCopyHeaderOnRedirect\<close>: the headers that carry credentials are copied to the next
  request only when its host is the host of the previous request or a subdomain of it;
  every other header is copied. The four keys are in their canonical spelling.
\<close>

definition shouldCopyHeaderOnRedirect :: "World \<Rightarrow> string \<Rightarrow> string \<Rightarrow> string \<Rightarrow> bool" where
  "shouldCopyHeaderOnRedirect w headerKey initial dest =
     (if headerKey = ''Authorization'' \<or> headerKey = ''Www-Authenticate''
         \<or> headerKey = ''Cookie'' \<or> headerKey = ''Cookie2''
      then isDomainOrSubdomain (URL_Hostname w dest) (URL_Hostname w initial)
      else True)"

text \<open>
  The header copier: every header of the initial request that may be copied, given the
  previous request \<open>preq\<close>, is stored in the new request.
\<close>

definition copyHeaders :: "World \<Rightarrow> (string \<rightharpoonup> string) \<Rightarrow> Request \<Rightarrow> Request \<Rightarrow> Request" where
  "copyHeaders w ireqhdr preq req =
     req\<lparr>Header :=
           (\<lambda>k. if ireqhdr k \<noteq> None \<and> shouldCopyHeaderOnRedirect w k (URL preq) (URL req)
                then ireqhdr k else Header req k)\<rparr>"

text \<open>
  The request for the next hop: the method and body as \<open>redirectBehavior\<close> decided, the
  resolved URL, the headers copied from the initial request, and a \<open>Referer\<close> when there
  is one for this hop.
\<close>

definition nextHop ::
    "World \<Rightarrow> Request \<Rightarrow> Request \<Rightarrow> string \<Rightarrow> bool \<Rightarrow> string \<Rightarrow> Request" where
  "nextHop w ireq req redirectMethod includeBody u =
     (let hop0 = \<lparr>Method = redirectMethod, URL = u, Header = Map.empty,
                  Body = (if includeBody then Body ireq else '''')\<rparr>;
          hop1 = copyHeaders w (Header ireq) req hop0;
          ref = refererForURL w (URL req) (URL hop1)
      in if ref \<noteq> '''' then Header_Set ''Referer'' ref hop1 else hop1)"

text \<open>
  The loop of \<open>Client.do\<close>. The first argument counts the requests that may still be sent;
  at zero the default redirect check stops the exchange. \<open>ireq\<close> is the initial request,
  \<open>req\<close> the one to send now. The result is the outcome and the requests sent, in order.
  An error of a round trip or of resolving a \<open>Location\<close> stands for the error as \<open>Do\<close>
  returns it.
\<close>

fun Client_do_loop ::
    "nat \<Rightarrow> World \<Rightarrow> Request \<Rightarrow> Request \<Rightarrow> (error + Response) \<times> Request list" where
  "Client_do_loop 0 w ireq req = (Inl ''stopped after 10 redirects'', [])"
| "Client_do_loop (Suc n) w ireq req =
     (case RoundTrip w req of
        Inl err \<Rightarrow> (Inl err, [req])
      | Inr resp \<Rightarrow>
          (case redirectBehavior (Method req) (StatusCode resp) of
             (redirectMethod, shouldRedirect, includeBody) \<Rightarrow>
               if \<not> shouldRedirect then (Inr resp, [req])
               else if Location resp = '''' then (Inr resp, [req])
               else
                 (case URL_Parse w (URL req) (Location resp) of
                    Inl err \<Rightarrow> (Inl err, [req])
                  | Inr u \<Rightarrow>
                      (case Client_do_loop n w ireq
                              (nextHop w ireq req redirectMethod includeBody u) of
                         (outcome, sent) \<Rightarrow> (outcome, req # sent)))))"

definition Client_Do :: "World \<Rightarrow> Request \<Rightarrow> (error + Response) \<times> Request list" where
  "Client_Do w req = Client_do_loop 10 w req req"

text \<open>What \<open>httpClient.Do\<close> returns to the caller: the outcome of the whole exchange.\<close>

definition httpClient_Do :: "World \<Rightarrow> Request \<Rightarrow> error + Response" where
  "httpClient_Do w req = fst (Client_Do w req)"

subsection \<open>Sending a report\<close>

text \<open>
  The interpretation of a response: the error returned (if any), whether the flag is
  stored, and the decoding step. The body is decoded once on either branch.
\<close>

definition interpretResponse :: "World \<Rightarrow> Client \<Rightarrow> Response \<Rightarrow> error option \<times> Client" where
  "interpretResponse w c resp =
     (if StatusCode resp < 200 \<or> StatusCode resp \<ge> 300
      then (case json_Decode w (resp_Body resp) of
              Inr apiResponse \<Rightarrow>
                (if Error apiResponse \<noteq> ''''
                 then (Some (''API error (HTTP '' @ fmt_d (StatusCode resp) @ ''): ''
                             @ Error apiResponse), c)
                 else (Some (''API returned non-success status: ''
                             @ fmt_d (StatusCode resp)), c))
            | Inl err \<Rightarrow>
                (Some (''API returned non-success status: '' @ fmt_d (StatusCode resp)), c))
      else (case json_Decode w (resp_Body resp) of
              Inl err \<Rightarrow> (None, c)
            | Inr apiResponse \<Rightarrow>
                (if Success apiResponse
                 then (None, c\<lparr>initialCompleted := True\<rparr>)
                 else (Some (''API processing failed: '' @ Error apiResponse), c))))"

text \<open>
  \<open>sendDiscoveryResult\<close>: the error returned, the client afterwards and the steps taken.
  Logging has no effect on any of the three and is left out.
\<close>

definition sendDiscoveryResult ::
    "World \<Rightarrow> Client \<Rightarrow> DiscoveryResult \<Rightarrow> bool \<Rightarrow> error option \<times> Client \<times> step list" where
  "sendDiscoveryResult w c result shouldSend =
     (if APIEndpoint (Elchi (config c)) = '''' \<or> \<not> shouldSend
      then (None, c, [])
      else
        (case GetDiscoveryPayload c result of
           Inl err \<Rightarrow> (Some err, c, [DeriveTenant])
         | Inr payload \<Rightarrow>
             (case json_Marshal w payload of
                Inl err \<Rightarrow>
                  (Some (''failed to marshal discovery payload: '' @ err), c,
                   [DeriveTenant, Marshal])
              | Inr jsonData \<Rightarrow>
                  (case http_NewRequest w ''POST'' (APIEndpoint (Elchi (config c))) of
                     Some err \<Rightarrow>
                       (Some (''failed to create request: '' @ err), c,
                        [DeriveTenant, Marshal])
                   | None \<Rightarrow>
                       (let req = setHeaders c
                                    \<lparr>Method = ''POST'',
                                     URL = APIEndpoint (Elchi (config c)),
                                     Header = Map.empty, Body = jsonData\<rparr>
                        in case httpClient_Do w req of
                             Inl err \<Rightarrow>
                               (Some (''failed to send request: '' @ err), c,
                                [DeriveTenant, Marshal, Do req])
                           | Inr resp \<Rightarrow>
                               (case interpretResponse w c resp of
                                  (e, c') \<Rightarrow>
                                    (e, c', [DeriveTenant, Marshal, Do req, Decode])))))))"

definition SendDiscoveryResult ::
    "World \<Rightarrow> Client \<Rightarrow> DiscoveryResult \<Rightarrow> error option \<times> Client \<times> step list" where
  "SendDiscoveryResult w c result = sendDiscoveryResult w c result True"

text \<open>
  The requests a send handed to the HTTP client; the requests that went out on the wire
  for them, redirect hops included; and a run of sends by one client, one per tick, each
  against the world of its tick.
\<close>

fun transmitted :: "step list \<Rightarrow> Request list" where
  "transmitted [] = []"
| "transmitted (Do req # rest) = req # transmitted rest"
| "transmitted (other # rest) = transmitted rest"

definition wire :: "World \<Rightarrow> step list \<Rightarrow> Request list" where
  "wire w steps = concat (map (\<lambda>req. snd (Client_Do w req)) (transmitted steps))"

fun sendAll ::
    "Client \<Rightarrow> (World \<times> DiscoveryResult) list \<Rightarrow> Client \<times> (error option \<times> step list) list" where
  "sendAll c [] = (c, [])"
| "sendAll c ((w, result) # ticks) =
     (case SendDiscoveryResult w c result of
        (e, c', steps) \<Rightarrow>
          (case sendAll c' ticks of (c'', outs) \<Rightarrow> (c'', (e, steps) # outs)))"

section \<open>Sample values\<close>

text \<open>
  A report, a client and a world with fixed answers, in the shape of the repository's
  tests; the closed instances of the theorems below are stated on them.
\<close>
definition example_result :: DiscoveryResult where
  "example_result =
     \<lparr>Timestamp = 0, ClusterInfo = \<lparr>ci_Name = ''test-cluster'', ci_Version = ''v1.28.2''\<rparr>,
      NodeCount = 0, Nodes = [], Duration = ''100ms''\<rparr>"

definition example_client :: "string \<Rightarrow> string \<Rightarrow> Client" where
  "example_client endpoint token =
     NewClient \<lparr>Elchi = \<lparr>Token = token, APIEndpoint = endpoint, InsecureSkipVerify = False\<rparr>,
                Log = \<lparr>Level = ''info'', Format = ''json'', Output = ''stdout''\<rparr>,
                DiscoveryInterval = 30, ClusterName = ''test-cluster''\<rparr>"

definition example_world :: "int \<Rightarrow> error + APIResponse \<Rightarrow> World" where
  "example_world status decoded =
     \<lparr>json_Marshal = (\<lambda>payload. Inr ''{}''),
      http_NewRequest = (\<lambda>method url. None),
      RoundTrip = (\<lambda>req. Inr \<lparr>StatusCode = status, Location = '''', resp_Body = ''body''\<rparr>),
      URL_Parse = (\<lambda>base ref. Inr ref),
      URL_Hostname = (\<lambda>url. ''api.example.com''),
      refererForURL = (\<lambda>lastReq newReq. lastReq),
      json_Decode = (\<lambda>body. decoded)\<rparr>"

text \<open>
  A world whose endpoint answers 307 with a \<open>Location\<close> on another host, which in turn
  answers 200 with a body that does not decode.
\<close>

definition redirecting_world :: World where
  "redirecting_world =
     \<lparr>json_Marshal = (\<lambda>payload. Inr ''{}''),
      http_NewRequest = (\<lambda>method url. None),
      RoundTrip =
        (\<lambda>req. if URL req = ''https://api.example.com''
               then Inr \<lparr>StatusCode = 307, Location = ''https://collector.example.net/ingest'',
                         resp_Body = ''''\<rparr>
               else Inr \<lparr>StatusCode = 200, Location = '''', resp_Body = ''ok''\<rparr>),
      URL_Parse = (\<lambda>base ref. Inr ref),
      URL_Hostname =
        (\<lambda>url. if url = ''https://api.example.com'' then ''api.example.com''
               else ''collector.example.net''),
      refererForURL = (\<lambda>lastReq newReq. lastReq),
      json_Decode = (\<lambda>body. Inl ''invalid character'')\<rparr>"

definition example_node ::
    "string \<Rightarrow> (string \<times> string) list \<Rightarrow> Taint list \<Rightarrow> NodeCondition list \<Rightarrow> Node" where
  "example_node name labels taints conds =
     \<lparr>Name = name, Labels = map_of labels, Taints = taints, Conditions = conds,
      Addresses = [\<lparr>addr_Type = ''InternalIP'', Address = ''192.168.1.10''\<rparr>],
      KubeletVersion = ''v1.28.2''\<rparr>"

definition example_service :: "error + Node list \<Rightarrow> error + VersionInfo option \<Rightarrow> Service" where
  "example_service listed version =
     NewService \<lparr>Nodes_List = listed, ServerVersion = version\<rparr> ''test-cluster''"

definition example_clock :: Clock where
  "example_clock = \<lparr>now = 1700000000, since = ''100ms''\<rparr>"

definition invalid_token_format :: error where
  "invalid_token_format = ''invalid token format: expected 'uuid--project' format''"

section \<open>Properties of the string functions\<close>

lemma Index_Some_iff:
  "Index s sep = Some m \<longleftrightarrow>
     m \<le> length s \<and> prefix sep (drop m s) \<and> (\<forall>i<m. \<not> prefix sep (drop i s))"
proof (induction s arbitrary: m)
  case Nil
  then show ?case by auto
next
  case (Cons c cs)
  show ?case
  proof (cases "prefix sep (c # cs)")
    case True
    then show ?thesis by (cases m) auto
  next
    case False
    show ?thesis
    proof (cases m)
      case 0
      with False show ?thesis by auto
    next
      case (Suc k)
      have "(\<forall>i<Suc k. \<not> prefix sep (drop i (c # cs))) \<longleftrightarrow> (\<forall>i<k. \<not> prefix sep (drop i cs))"
        using False by (auto simp: less_Suc_eq_0_disj)
      with False Suc Cons.IH [of k] show ?thesis by auto
    qed
  qed
qed

lemma extract_eq:
  "extractProjectFromToken token =
     (case Index token ''--'' of None \<Rightarrow> '''' | Some m \<Rightarrow> drop (m + 2) token)"
proof (cases token)
  case Nil
  then show ?thesis by (simp add: extractProjectFromToken_def SplitN_def)
next
  case (Cons c cs)
  then have "SplitN token ''--'' 2 = genSplit_loop token ''--'' (Suc 0)"
    by (simp add: SplitN_def)
  then show ?thesis
    by (simp add: extractProjectFromToken_def split: option.splits)
qed


lemma Index_None_no_occurrence:
  "Index s sep = None \<Longrightarrow> \<not> prefix sep (drop i s)"
proof (induction s arbitrary: i)
  case Nil
  then show ?case by (auto split: if_splits)
next
  case (Cons c cs)
  then show ?case by (cases i) (auto split: if_splits)
qed

lemma occurrence_split:
  assumes "prefix sep (drop m s)"
  shows "s = take m s @ sep @ drop (m + length sep) s"
proof -
  from assms obtain r where r: "drop m s = sep @ r"
    by (auto simp: prefix_def)
  then have "drop (length sep) (drop m s) = r" by simp
  then have "r = drop (m + length sep) s" by (simp add: add.commute)
  with r have "drop m s = sep @ drop (m + length sep) s" by simp
  then have "take m s @ drop m s = take m s @ sep @ drop (m + length sep) s" by simp
  then show ?thesis by simp
qed

lemma first_occurrence_Index:
  assumes "token = a @ sep @ b" and "\<forall>i<length a. \<not> prefix sep (drop i token)"
  shows "Index token sep = Some (length a)"
  using assms by (simp add: Index_Some_iff)

lemma contains_first_occurrence:
  assumes "token = a @ sep @ b"
  obtains m where "Index token sep = Some m"
proof (cases "Index token sep")
  case None
  from Index_None_no_occurrence [OF None, of "length a"] assms show ?thesis by simp
next
  case (Some m)
  then show ?thesis by (rule that)
qed

subsection \<open>C2: the tenant is everything after the first separator\<close>

text \<open>
  C2. For a credential that contains \<open>--\<close>, \<open>extractProjectFromToken\<close> cuts at the first
  occurrence only (the one with no occurrence starting before it) and returns what follows
  it unchanged, further separators included: such a first occurrence exists whenever the
  separator occurs at all, and \<open>uuid--project--extra\<close> gives \<open>project--extra\<close>.
\<close>

theorem extractProjectFromToken_first_split:
  "(\<forall>a b. token = a @ ''--'' @ b \<and> (\<forall>i<length a. \<not> prefix ''--'' (drop i token))
          \<longrightarrow> extractProjectFromToken token = b)
   \<and> ((\<exists>a b. token = a @ ''--'' @ b) \<longrightarrow>
        (\<exists>a b. token = a @ ''--'' @ b \<and> (\<forall>i<length a. \<not> prefix ''--'' (drop i token))
               \<and> extractProjectFromToken token = b))
   \<and> extractProjectFromToken ''uuid--project--extra'' = ''project--extra''"
proof (intro conjI allI impI)
  fix a b
  assume h: "token = a @ ''--'' @ b \<and> (\<forall>i<length a. \<not> prefix ''--'' (drop i token))"
  then have "Index token ''--'' = Some (length a)"
    by (intro first_occurrence_Index [where b = b]) auto
  with h show "extractProjectFromToken token = b"
    by (simp add: extract_eq)
next
  assume "\<exists>a b. token = a @ ''--'' @ b"
  then obtain a b where "token = a @ ''--'' @ b" by blast
  then obtain m where m: "Index token ''--'' = Some m"
    by (rule contains_first_occurrence)
  then have p: "prefix ''--'' (drop m token)" and f: "\<forall>i<m. \<not> prefix ''--'' (drop i token)"
    and le: "m \<le> length token"
    by (simp_all add: Index_Some_iff)
  from occurrence_split [OF p] have s: "token = take m token @ ''--'' @ drop (m + 2) token"
    by simp
  from le have "length (take m token) = m" by simp
  with f have f': "\<forall>i<length (take m token). \<not> prefix ''--'' (drop i token)" by simp
  from m have "extractProjectFromToken token = drop (m + 2) token"
    by (simp add: extract_eq)
  with s f' show "\<exists>a b. token = a @ ''--'' @ b \<and> (\<forall>i<length a. \<not> prefix ''--'' (drop i token))
               \<and> extractProjectFromToken token = b"
    by blast
next
  show "extractProjectFromToken ''uuid--project--extra'' = ''project--extra''"
    by (simp add: extract_eq)
qed

theorem extractProjectFromToken_first_split_witness:
  "extractProjectFromToken ''a--b--c'' = ''b--c''"
proof -
  have "''a--b--c'' = ''a'' @ ''--'' @ ''b--c''
        \<and> (\<forall>i<length ''a''. \<not> prefix ''--'' (drop i ''a--b--c''))"
    by simp
  with extractProjectFromToken_first_split [of "''a--b--c''"] show ?thesis
    by blast
qed

section \<open>Properties of the delivery client\<close>

lemma ten_requests: "(10::nat) = Suc 9"
  by simp

lemma Client_do_loop_no_location:
  assumes "RoundTrip w req = Inr resp" and "Location resp = ''''"
  shows "Client_do_loop (Suc n) w ireq req = (Inr resp, [req])"
  using assms by (simp split: prod.splits)

lemma Client_Do_no_location:
  assumes "RoundTrip w req = Inr resp" and "Location resp = ''''"
  shows "Client_Do w req = (Inr resp, [req])"
  by (simp only: Client_Do_def ten_requests Client_do_loop_no_location [OF assms])

lemma example_world_simps:
  "json_Marshal (example_world status decoded) = (\<lambda>payload. Inr ''{}'')"
  "http_NewRequest (example_world status decoded) = (\<lambda>method url. None)"
  "json_Decode (example_world status decoded) = (\<lambda>body. decoded)"
  "Client_Do (example_world status decoded) req
     = (Inr \<lparr>StatusCode = status, Location = '''', resp_Body = ''body''\<rparr>, [req])"
  "httpClient_Do (example_world status decoded) req
     = Inr \<lparr>StatusCode = status, Location = '''', resp_Body = ''body''\<rparr>"
proof -
  show "json_Marshal (example_world status decoded) = (\<lambda>payload. Inr ''{}'')"
    and "http_NewRequest (example_world status decoded) = (\<lambda>method url. None)"
    and "json_Decode (example_world status decoded) = (\<lambda>body. decoded)"
    by (simp_all add: example_world_def)
  have "RoundTrip (example_world status decoded) req
          = Inr \<lparr>StatusCode = status, Location = '''', resp_Body = ''body''\<rparr>"
    by (simp add: example_world_def)
  from Client_Do_no_location [OF this]
  show c: "Client_Do (example_world status decoded) req
     = (Inr \<lparr>StatusCode = status, Location = '''', resp_Body = ''body''\<rparr>, [req])"
    by simp
  then show "httpClient_Do (example_world status decoded) req
     = Inr \<lparr>StatusCode = status, Location = '''', resp_Body = ''body''\<rparr>"
    by (simp add: httpClient_Do_def)
qed

lemma SplitN_two:
  "SplitN token ''--'' 2 =
     (case Index token ''--'' of
        None \<Rightarrow> [token]
      | Some m \<Rightarrow> [take m token, drop (m + 2) token])"
proof (cases token)
  case Nil
  then show ?thesis by (simp add: SplitN_def)
next
  case (Cons c cs)
  then have "SplitN token ''--'' 2 = genSplit_loop token ''--'' (Suc 0)"
    by (simp add: SplitN_def)
  then show ?thesis by (simp split: option.splits)
qed

lemma extract_by_parts:
  "extractProjectFromToken token =
     (if length (SplitN token ''--'' 2) = 2 then SplitN token ''--'' 2 ! 1 else '''')"
  by (simp add: extractProjectFromToken_def Let_def)

lemma send_invalid_token:
  assumes "APIEndpoint (Elchi (config c)) \<noteq> ''''"
    and "extractProjectFromToken (Token (Elchi (config c))) = ''''"
  shows "SendDiscoveryResult w c result = (Some invalid_token_format, c, [DeriveTenant])"
  using assms
  by (simp add: SendDiscoveryResult_def sendDiscoveryResult_def GetDiscoveryPayload_def
      invalid_token_format_def)

subsection \<open>C3: which credentials abort a send\<close>

text \<open>
  C3, as stated, asks for two non-empty parts. The credential \<open>--project\<close> splits into an
  empty first part and \<open>project\<close>; the client checks the second part only, so the send goes
  on, hands one request to the HTTP client and returns no error.
\<close>

theorem invalid_token_counterexample:
  "SplitN ''--project'' ''--'' 2 = ['''', ''project'']
   \<and> fst (SendDiscoveryResult (example_world 200 (Inl ''EOF''))
            (example_client ''https://api.example.com'' ''--project'') example_result) = None
   \<and> length (transmitted (snd (snd (SendDiscoveryResult (example_world 200 (Inl ''EOF''))
            (example_client ''https://api.example.com'' ''--project'') example_result)))) = 1"
  by (simp add: SplitN_two SendDiscoveryResult_def sendDiscoveryResult_def
      GetDiscoveryPayload_def extract_eq example_world_simps example_client_def NewClient_def
      interpretResponse_def)

text \<open>
  C3, amended. With an endpoint configured: if the split of the credential at the first
  \<open>--\<close> has no second part, or an empty one, the send returns the "invalid token format"
  error after the tenant derivation alone, transmits nothing and leaves the client as it
  was; a credential without any separator is such a case. Conversely, when the second part
  is non-empty the tenant derivation succeeds with that part as the project, whatever the
  first part is.
\<close>

theorem invalid_token_aborts_send:
  assumes "APIEndpoint (Elchi (config c)) \<noteq> ''''"
  shows "(length (SplitN (Token (Elchi (config c))) ''--'' 2) \<noteq> 2
            \<or> SplitN (Token (Elchi (config c))) ''--'' 2 ! 1 = ''''
          \<longrightarrow> SendDiscoveryResult w c result = (Some invalid_token_format, c, [DeriveTenant])
              \<and> transmitted (snd (snd (SendDiscoveryResult w c result))) = []
              \<and> Contains invalid_token_format ''invalid token format'')
       \<and> ((\<nexists>a b. Token (Elchi (config c)) = a @ ''--'' @ b)
          \<longrightarrow> length (SplitN (Token (Elchi (config c))) ''--'' 2) \<noteq> 2)
       \<and> (length (SplitN (Token (Elchi (config c))) ''--'' 2) = 2
            \<and> SplitN (Token (Elchi (config c))) ''--'' 2 ! 1 \<noteq> ''''
          \<longrightarrow> GetDiscoveryPayload c result
                = Inr \<lparr>Project = SplitN (Token (Elchi (config c))) ''--'' 2 ! 1, Data = result\<rparr>)"
proof (intro conjI impI)
  assume "length (SplitN (Token (Elchi (config c))) ''--'' 2) \<noteq> 2
            \<or> SplitN (Token (Elchi (config c))) ''--'' 2 ! 1 = ''''"
  then have "extractProjectFromToken (Token (Elchi (config c))) = ''''"
    by (auto simp: extract_by_parts)
  from send_invalid_token [OF assms this]
  show "SendDiscoveryResult w c result = (Some invalid_token_format, c, [DeriveTenant])" .
  then show "transmitted (snd (snd (SendDiscoveryResult w c result))) = []" by simp
  show "Contains invalid_token_format ''invalid token format''"
    by (simp add: Contains_def invalid_token_format_def)
next
  assume n: "\<nexists>a b. Token (Elchi (config c)) = a @ ''--'' @ b"
  have "Index (Token (Elchi (config c))) ''--'' = None"
  proof (cases "Index (Token (Elchi (config c))) ''--''")
    case (Some m)
    then have "prefix ''--'' (drop m (Token (Elchi (config c))))"
      by (simp add: Index_Some_iff)
    from occurrence_split [OF this] n show ?thesis by blast
  qed simp
  then show "length (SplitN (Token (Elchi (config c))) ''--'' 2) \<noteq> 2"
    by (simp add: SplitN_two)
next
  assume "length (SplitN (Token (Elchi (config c))) ''--'' 2) = 2
            \<and> SplitN (Token (Elchi (config c))) ''--'' 2 ! 1 \<noteq> ''''"
  then show "GetDiscoveryPayload c result
                = Inr \<lparr>Project = SplitN (Token (Elchi (config c))) ''--'' 2 ! 1, Data = result\<rparr>"
    by (simp add: GetDiscoveryPayload_def extract_by_parts)
qed

theorem invalid_token_aborts_send_witness:
  "SendDiscoveryResult (example_world 200 (Inl ''EOF''))
     (example_client ''https://api.example.com'' ''invalid-token-format'') example_result
     = (Some invalid_token_format,
        example_client ''https://api.example.com'' ''invalid-token-format'', [DeriveTenant])
   \<and> GetDiscoveryPayload (example_client ''https://api.example.com'' ''--project'') example_result
     = Inr \<lparr>Project = ''project'', Data = example_result\<rparr>"
proof -
  have e1: "APIEndpoint (Elchi (config (example_client ''https://api.example.com'' ''invalid-token-format''))) \<noteq> ''''"
    and e2: "APIEndpoint (Elchi (config (example_client ''https://api.example.com'' ''--project''))) \<noteq> ''''"
    by (simp_all add: example_client_def NewClient_def)
  have s1: "SplitN (Token (Elchi (config (example_client ''https://api.example.com'' ''invalid-token-format'')))) ''--'' 2 = [''invalid-token-format'']"
    by (simp add: example_client_def NewClient_def SplitN_two)
  have s2: "SplitN (Token (Elchi (config (example_client ''https://api.example.com'' ''--project'')))) ''--'' 2 = ['''', ''project'']"
    by (simp add: example_client_def NewClient_def SplitN_two)
  from invalid_token_aborts_send [OF e1, of "example_world 200 (Inl ''EOF'')" example_result]
    invalid_token_aborts_send [OF e2, of "example_world 200 (Inl ''EOF'')" example_result]
  show ?thesis
    unfolding s1 s2 by simp
qed

lemma send_skip:
  assumes "APIEndpoint (Elchi (config c)) = '''' \<or> \<not> shouldSend"
  shows "sendDiscoveryResult w c result shouldSend = (None, c, [])"
  using assms by (auto simp: sendDiscoveryResult_def)

lemma transmitted_send:
  "transmitted (snd (snd (sendDiscoveryResult w c result shouldSend))) = []
   \<or> (\<exists>jsonData.
         transmitted (snd (snd (sendDiscoveryResult w c result shouldSend)))
           = [setHeaders c \<lparr>Method = ''POST'', URL = APIEndpoint (Elchi (config c)),
                             Header = Map.empty, Body = jsonData\<rparr>]
         \<and> extractProjectFromToken (Token (Elchi (config c))) \<noteq> '''')"
  by (auto simp: sendDiscoveryResult_def GetDiscoveryPayload_def Let_def
      split: sum.splits option.splits prod.splits)

lemma setHeaders_Authorization:
  "Token (Elchi (config c)) \<noteq> '''' \<Longrightarrow>
     Header (setHeaders c req) ''Authorization'' = Some (''Bearer '' @ Token (Elchi (config c)))"
  by (simp add: setHeaders_def Header_Set_def Let_def)

lemma setHeaders_initial:
  "Header (setHeaders c req) ''initial''
     = Some (if initialCompleted c then ''false'' else ''true'')"
  by (simp add: setHeaders_def Header_Set_def Let_def)

lemma extract_empty: "extractProjectFromToken '''' = ''''"
  by (simp add: extract_eq)

subsection \<open>C4: no endpoint, no send\<close>

text \<open>
  C4. With no endpoint configured, a send returns no error, leaves the client (and so the
  lifecycle flag) as it was and takes no step at all: no tenant derivation, no
  serialization, no request. This holds for every report, every world and every
  credential, malformed ones included.
\<close>

theorem no_endpoint_is_a_no_op:
  assumes "APIEndpoint (Elchi (config c)) = ''''"
  shows "SendDiscoveryResult w c result = (None, c, [])
         \<and> DeriveTenant \<notin> set (snd (snd (SendDiscoveryResult w c result)))
         \<and> Marshal \<notin> set (snd (snd (SendDiscoveryResult w c result)))
         \<and> transmitted (snd (snd (SendDiscoveryResult w c result))) = []
         \<and> initialCompleted (fst (snd (SendDiscoveryResult w c result))) = initialCompleted c"
  using assms by (simp add: SendDiscoveryResult_def send_skip)

theorem no_endpoint_is_a_no_op_witness:
  "SendDiscoveryResult (example_world 200 (Inl ''EOF'')) (example_client '''' ''invalid-token-format'')
     example_result
   = (None, example_client '''' ''invalid-token-format'', [])"
proof -
  have "APIEndpoint (Elchi (config (example_client '''' ''invalid-token-format''))) = ''''"
    by (simp add: example_client_def NewClient_def)
  from no_endpoint_is_a_no_op [OF this] show ?thesis by simp
qed

lemma nextHop_fields:
  "URL (nextHop w ireq req redirectMethod includeBody u) = u"
  "Method (nextHop w ireq req redirectMethod includeBody u) = redirectMethod"
  "Body (nextHop w ireq req redirectMethod includeBody u)
     = (if includeBody then Body ireq else '''')"
  by (simp_all add: nextHop_def copyHeaders_def Header_Set_def Let_def)

lemma nextHop_Authorization:
  "Header (nextHop w ireq req redirectMethod includeBody u) ''Authorization''
     = (if isDomainOrSubdomain (URL_Hostname w u) (URL_Hostname w (URL req))
        then Header ireq ''Authorization'' else None)"
  by (cases "Header ireq ''Authorization''")
     (simp_all add: nextHop_def copyHeaders_def Header_Set_def Let_def
        shouldCopyHeaderOnRedirect_def)

lemma isDomainOrSubdomain_same: "isDomainOrSubdomain h h"
  by (simp add: isDomainOrSubdomain_def)

lemma Client_do_loop_sent:
  "snd (Client_do_loop (Suc n) w ireq req) \<noteq> []
   \<and> hd (snd (Client_do_loop (Suc n) w ireq req)) = req"
  by (simp split: sum.splits prod.splits)

lemma Client_do_loop_sent_cases:
  "snd (Client_do_loop n w ireq req) = []
   \<or> (\<exists>rest. snd (Client_do_loop n w ireq req) = req # rest)"
proof (cases n)
  case 0
  then show ?thesis by simp
next
  case (Suc k)
  with Client_do_loop_sent [of k w ireq req] show ?thesis
    by (cases "snd (Client_do_loop (Suc k) w ireq req)") auto
qed

lemma Client_do_loop_step:
  "snd (Client_do_loop (Suc n) w ireq req) = [req]
   \<or> (\<exists>m b u. snd (Client_do_loop (Suc n) w ireq req)
                   = req # snd (Client_do_loop n w ireq (nextHop w ireq req m b u)))"
proof (cases "RoundTrip w req")
  case (Inl err)
  then show ?thesis by simp
next
  case (Inr resp)
  obtain m s b where rb: "redirectBehavior (Method req) (StatusCode resp) = (m, s, b)"
    by (cases "redirectBehavior (Method req) (StatusCode resp)")
  show ?thesis
  proof (cases "s \<and> Location resp \<noteq> ''''")
    case False
    with Inr rb show ?thesis by auto
  next
    case True
    show ?thesis
    proof (cases "URL_Parse w (URL req) (Location resp)")
      case (Inl err)
      with Inr rb True show ?thesis by simp
    next
      case parsed: (Inr u)
      with Inr rb True
      have "snd (Client_do_loop (Suc n) w ireq req)
              = req # snd (Client_do_loop n w ireq (nextHop w ireq req m b u))"
        by (simp split: prod.splits)
      then show ?thesis by blast
    qed
  qed
qed

lemma same_host_hops_authorized:
  assumes "Header req ''Authorization'' = Header ireq ''Authorization''"
  shows "\<forall>r \<in> set (takeWhile (\<lambda>r. URL_Hostname w (URL r) = URL_Hostname w (URL req))
                      (snd (Client_do_loop n w ireq req))).
           Header r ''Authorization'' = Header ireq ''Authorization''"
  using assms
proof (induction n arbitrary: req)
  case 0
  then show ?case by simp
next
  case (Suc n)
  let ?P = "\<lambda>r. URL_Hostname w (URL r) = URL_Hostname w (URL req)"
  from Client_do_loop_step [of n w ireq req]
  consider "snd (Client_do_loop (Suc n) w ireq req) = [req]"
    | m b u where "snd (Client_do_loop (Suc n) w ireq req)
                     = req # snd (Client_do_loop n w ireq (nextHop w ireq req m b u))"
    by blast
  then show ?case
  proof cases
    case 1
    with Suc.prems show ?thesis by simp
  next
    case 2
    let ?next = "nextHop w ireq req m b u"
    show ?thesis
    proof (cases "URL_Hostname w u = URL_Hostname w (URL req)")
      case True
      then have "Header ?next ''Authorization'' = Header ireq ''Authorization''"
        by (simp add: nextHop_Authorization isDomainOrSubdomain_same)
      from Suc.IH [OF this] True Suc.prems 2 show ?thesis
        by (simp add: nextHop_fields)
    next
      case False
      with Client_do_loop_sent_cases [of n w ireq ?next]
      have "takeWhile ?P (snd (Client_do_loop n w ireq ?next)) = []"
        by (auto simp: nextHop_fields)
      with 2 Suc.prems show ?thesis by simp
    qed
  qed
qed

lemma setHeaders_fields:
  "URL (setHeaders c req) = URL req" "Method (setHeaders c req) = Method req"
  "Body (setHeaders c req) = Body req"
  by (simp_all add: setHeaders_def Header_Set_def Let_def)

lemma wire_send:
  "wire w (snd (snd (sendDiscoveryResult w c result shouldSend))) = []
     \<and> transmitted (snd (snd (sendDiscoveryResult w c result shouldSend))) = []
   \<or> (\<exists>jsonData.
         transmitted (snd (snd (sendDiscoveryResult w c result shouldSend)))
           = [setHeaders c \<lparr>Method = ''POST'', URL = APIEndpoint (Elchi (config c)),
                             Header = Map.empty, Body = jsonData\<rparr>]
         \<and> wire w (snd (snd (sendDiscoveryResult w c result shouldSend)))
           = snd (Client_do_loop (Suc 9) w
                    (setHeaders c \<lparr>Method = ''POST'', URL = APIEndpoint (Elchi (config c)),
                                     Header = Map.empty, Body = jsonData\<rparr>)
                    (setHeaders c \<lparr>Method = ''POST'', URL = APIEndpoint (Elchi (config c)),
                                     Header = Map.empty, Body = jsonData\<rparr>))
         \<and> extractProjectFromToken (Token (Elchi (config c))) \<noteq> '''')"
proof -
  have "Client_Do w req = Client_do_loop (Suc 9) w req req" for req
    by (simp only: Client_Do_def ten_requests)
  with transmitted_send [of w c result shouldSend] show ?thesis
    by (auto simp: wire_def)
qed

lemma redirecting_world_exchange:
  "Client_Do redirecting_world
     (setHeaders (example_client ''https://api.example.com'' ''uuid--project'')
        \<lparr>Method = ''POST'', URL = ''https://api.example.com'', Header = Map.empty,
         Body = ''{}''\<rparr>)
   = (Inr \<lparr>StatusCode = 200, Location = '''', resp_Body = ''ok''\<rparr>,
      [setHeaders (example_client ''https://api.example.com'' ''uuid--project'')
         \<lparr>Method = ''POST'', URL = ''https://api.example.com'', Header = Map.empty,
          Body = ''{}''\<rparr>,
       nextHop redirecting_world
         (setHeaders (example_client ''https://api.example.com'' ''uuid--project'')
            \<lparr>Method = ''POST'', URL = ''https://api.example.com'', Header = Map.empty,
             Body = ''{}''\<rparr>)
         (setHeaders (example_client ''https://api.example.com'' ''uuid--project'')
            \<lparr>Method = ''POST'', URL = ''https://api.example.com'', Header = Map.empty,
             Body = ''{}''\<rparr>)
         ''POST'' True ''https://collector.example.net/ingest''])"
proof -
  let ?req = "setHeaders (example_client ''https://api.example.com'' ''uuid--project'')
        \<lparr>Method = ''POST'', URL = ''https://api.example.com'', Header = Map.empty,
         Body = ''{}''\<rparr>"
  let ?hop = "nextHop redirecting_world ?req ?req ''POST'' True
                ''https://collector.example.net/ingest''"
  have r1: "RoundTrip redirecting_world ?req
              = Inr \<lparr>StatusCode = 307, Location = ''https://collector.example.net/ingest'',
                     resp_Body = ''''\<rparr>"
    by (simp add: redirecting_world_def setHeaders_fields)
  have r2: "RoundTrip redirecting_world ?hop
              = Inr \<lparr>StatusCode = 200, Location = '''', resp_Body = ''ok''\<rparr>"
    by (simp add: redirecting_world_def nextHop_fields)
  have p: "URL_Parse redirecting_world base ref = Inr ref" for base ref
    by (simp add: redirecting_world_def)
  have inner: "Client_do_loop (Suc n) redirecting_world ?req ?hop
                 = (Inr \<lparr>StatusCode = 200, Location = '''', resp_Body = ''ok''\<rparr>, [?hop])"
    for n
    by (rule Client_do_loop_no_location [OF r2]) simp
  have outer: "Client_do_loop (Suc (Suc n)) redirecting_world ?req ?req
          = (Inr \<lparr>StatusCode = 200, Location = '''', resp_Body = ''ok''\<rparr>, [?req, ?hop])"
    for n
    unfolding Client_do_loop.simps(2) [of "Suc n"] r1
    by (simp add: redirectBehavior_def setHeaders_fields p inner del: Client_do_loop.simps)
  have ten: "(10::nat) = Suc (Suc 8)" by simp
  show ?thesis
    by (simp only: Client_Do_def ten outer)
qed

lemma redirecting_world_send:
  "SendDiscoveryResult redirecting_world
     (example_client ''https://api.example.com'' ''uuid--project'') example_result
   = (None, example_client ''https://api.example.com'' ''uuid--project'',
      [DeriveTenant, Marshal,
       Do (setHeaders (example_client ''https://api.example.com'' ''uuid--project'')
             \<lparr>Method = ''POST'', URL = ''https://api.example.com'', Header = Map.empty,
              Body = ''{}''\<rparr>),
       Decode])"
proof -
  let ?c = "example_client ''https://api.example.com'' ''uuid--project''"
  have e: "APIEndpoint (Elchi (config ?c)) = ''https://api.example.com''"
    by (simp add: example_client_def NewClient_def)
  have p: "GetDiscoveryPayload ?c example_result
             = Inr \<lparr>Project = ''project'', Data = example_result\<rparr>"
    by (simp add: GetDiscoveryPayload_def extract_eq example_client_def NewClient_def)
  have w: "json_Marshal redirecting_world = (\<lambda>payload. Inr ''{}'')"
    "http_NewRequest redirecting_world = (\<lambda>method url. None)"
    "json_Decode redirecting_world = (\<lambda>body. Inl ''invalid character'')"
    by (simp_all add: redirecting_world_def)
  show ?thesis
    by (simp add: SendDiscoveryResult_def sendDiscoveryResult_def e p w httpClient_Do_def
        redirecting_world_exchange interpretResponse_def)
qed

subsection \<open>C10: which requests carry the credential\<close>

text \<open>
  C10, as stated, speaks of every request a send transmits. The HTTP client follows
  redirects on its own: when the endpoint answers 307 with a \<open>Location\<close> on another host,
  two requests go out for one send. The first carries \<open>Authorization\<close>; the second is a
  POST of the same body to the other host and carries no \<open>Authorization\<close>, and the send
  returns no error.
\<close>

theorem redirect_hop_counterexample:
  "fst (SendDiscoveryResult redirecting_world
          (example_client ''https://api.example.com'' ''uuid--project'') example_result) = None
   \<and> length (wire redirecting_world (snd (snd (SendDiscoveryResult redirecting_world
          (example_client ''https://api.example.com'' ''uuid--project'') example_result)))) = 2
   \<and> Header (wire redirecting_world (snd (snd (SendDiscoveryResult redirecting_world
          (example_client ''https://api.example.com'' ''uuid--project'') example_result))) ! 0)
        ''Authorization'' = Some ''Bearer uuid--project''
   \<and> URL (wire redirecting_world (snd (snd (SendDiscoveryResult redirecting_world
          (example_client ''https://api.example.com'' ''uuid--project'') example_result))) ! 1)
        = ''https://collector.example.net/ingest''
   \<and> Method (wire redirecting_world (snd (snd (SendDiscoveryResult redirecting_world
          (example_client ''https://api.example.com'' ''uuid--project'') example_result))) ! 1)
        = ''POST''
   \<and> Body (wire redirecting_world (snd (snd (SendDiscoveryResult redirecting_world
          (example_client ''https://api.example.com'' ''uuid--project'') example_result))) ! 1)
        = ''{}''
   \<and> Header (wire redirecting_world (snd (snd (SendDiscoveryResult redirecting_world
          (example_client ''https://api.example.com'' ''uuid--project'') example_result))) ! 1)
        ''Authorization'' = None"
proof -
  let ?c = "example_client ''https://api.example.com'' ''uuid--project''"
  let ?req = "setHeaders ?c
        \<lparr>Method = ''POST'', URL = ''https://api.example.com'', Header = Map.empty,
         Body = ''{}''\<rparr>"
  have t: "Token (Elchi (config ?c)) = ''uuid--project''"
    by (simp add: example_client_def NewClient_def)
  then have a: "Header ?req ''Authorization'' = Some ''Bearer uuid--project''"
    using setHeaders_Authorization [of ?c] by simp
  have h: "URL_Hostname redirecting_world ''https://collector.example.net/ingest''
             = ''collector.example.net''"
    "URL_Hostname redirecting_world ''https://api.example.com'' = ''api.example.com''"
    by (simp_all add: redirecting_world_def)
  have d: "\<not> isDomainOrSubdomain ''collector.example.net'' ''api.example.com''"
    by (simp add: isDomainOrSubdomain_def suffix_to_prefix)
  show ?thesis
    by (simp add: redirecting_world_send wire_def redirecting_world_exchange a
        nextHop_fields nextHop_Authorization h d setHeaders_fields)
qed

text \<open>
  C10, amended. Every request a send hands to the HTTP client carries the header
  \<open>Authorization\<close> with \<open>Bearer\<close> and the raw credential, and the credential is not empty: an
  empty credential has an empty tenant, so \<open>GetDiscoveryPayload\<close> fails and the send ends
  before a request exists and before anything goes out; the branch that skips the header
  is never taken on a request that is sent. That request is the first one on the wire,
  and the requests that follow it carry the same header for as long as the exchange stays
  on the host of the endpoint.
\<close>

theorem transmitted_request_is_authorized:
  "(\<forall>req \<in> set (transmitted (snd (snd (SendDiscoveryResult w c result)))).
       Token (Elchi (config c)) \<noteq> ''''
       \<and> Header req ''Authorization'' = Some (''Bearer '' @ Token (Elchi (config c)))
       \<and> wire w (snd (snd (SendDiscoveryResult w c result))) \<noteq> []
       \<and> hd (wire w (snd (snd (SendDiscoveryResult w c result)))) = req)
   \<and> (Token (Elchi (config c)) = '''' \<longrightarrow>
        extractProjectFromToken (Token (Elchi (config c))) = ''''
        \<and> GetDiscoveryPayload c result = Inl invalid_token_format
        \<and> transmitted (snd (snd (SendDiscoveryResult w c result))) = []
        \<and> wire w (snd (snd (SendDiscoveryResult w c result))) = [])
   \<and> (\<forall>r \<in> set (takeWhile
                    (\<lambda>r. URL_Hostname w (URL r)
                           = URL_Hostname w (APIEndpoint (Elchi (config c))))
                    (wire w (snd (snd (SendDiscoveryResult w c result))))).
        Header r ''Authorization'' = Some (''Bearer '' @ Token (Elchi (config c))))"
proof -
  let ?steps = "snd (snd (SendDiscoveryResult w c result))"
  from wire_send [of w c result True]
  consider (none) "wire w ?steps = []" "transmitted ?steps = []"
    | (sent) jsonData where
        "transmitted ?steps
           = [setHeaders c \<lparr>Method = ''POST'', URL = APIEndpoint (Elchi (config c)),
                             Header = Map.empty, Body = jsonData\<rparr>]"
        "wire w ?steps
           = snd (Client_do_loop (Suc 9) w
                    (setHeaders c \<lparr>Method = ''POST'', URL = APIEndpoint (Elchi (config c)),
                                     Header = Map.empty, Body = jsonData\<rparr>)
                    (setHeaders c \<lparr>Method = ''POST'', URL = APIEndpoint (Elchi (config c)),
                                     Header = Map.empty, Body = jsonData\<rparr>))"
        "extractProjectFromToken (Token (Elchi (config c))) \<noteq> ''''"
    unfolding SendDiscoveryResult_def by blast
  then show ?thesis
  proof cases
    case none
    then show ?thesis
      by (simp add: extract_empty GetDiscoveryPayload_def invalid_token_format_def)
  next
    case sent
    let ?req = "setHeaders c \<lparr>Method = ''POST'', URL = APIEndpoint (Elchi (config c)),
                               Header = Map.empty, Body = jsonData\<rparr>"
    from sent(3) have t: "Token (Elchi (config c)) \<noteq> ''''"
      using extract_empty by auto
    note a = setHeaders_Authorization [OF t, of "\<lparr>Method = ''POST'',
               URL = APIEndpoint (Elchi (config c)), Header = Map.empty, Body = jsonData\<rparr>"]
    note first = Client_do_loop_sent [of 9 w ?req ?req]
    have u: "URL ?req = APIEndpoint (Elchi (config c))"
      by (simp add: setHeaders_fields)
    have "\<forall>r \<in> set (takeWhile (\<lambda>r. URL_Hostname w (URL r) = URL_Hostname w (URL ?req))
                        (snd (Client_do_loop (Suc 9) w ?req ?req))).
            Header r ''Authorization'' = Header ?req ''Authorization''"
      by (rule same_host_hops_authorized) simp
    then have hops: "\<forall>r \<in> set (takeWhile
                    (\<lambda>r. URL_Hostname w (URL r)
                           = URL_Hostname w (APIEndpoint (Elchi (config c))))
                    (wire w ?steps)).
        Header r ''Authorization'' = Some (''Bearer '' @ Token (Elchi (config c)))"
      unfolding u a sent(2) .
    from t a first hops sent(1,2) show ?thesis
      by simp
  qed
qed

theorem transmitted_request_is_authorized_witness:
  "length (transmitted (snd (snd (SendDiscoveryResult redirecting_world
             (example_client ''https://api.example.com'' ''uuid--project'') example_result)))) = 1
   \<and> Header (hd (transmitted (snd (snd (SendDiscoveryResult redirecting_world
             (example_client ''https://api.example.com'' ''uuid--project'') example_result)))))
        ''Authorization'' = Some ''Bearer uuid--project''
   \<and> Header (hd (wire redirecting_world (snd (snd (SendDiscoveryResult redirecting_world
             (example_client ''https://api.example.com'' ''uuid--project'') example_result)))))
        ''Authorization'' = Some ''Bearer uuid--project''"
proof -
  have k: "Token (Elchi (config (example_client ''https://api.example.com'' ''uuid--project'')))
             = ''uuid--project''"
    by (simp add: example_client_def NewClient_def)
  from transmitted_request_is_authorized
         [of redirecting_world
             "example_client ''https://api.example.com'' ''uuid--project''" example_result]
  show ?thesis
    unfolding k by (simp add: redirecting_world_send)
qed

lemma send_reaches_response:
  assumes "APIEndpoint (Elchi (config c)) \<noteq> ''''"
    and "GetDiscoveryPayload c result = Inr payload"
    and "json_Marshal w payload = Inr jsonData"
    and "http_NewRequest w ''POST'' (APIEndpoint (Elchi (config c))) = None"
    and "httpClient_Do w (setHeaders c \<lparr>Method = ''POST'', URL = APIEndpoint (Elchi (config c)),
                                         Header = Map.empty, Body = jsonData\<rparr>) = Inr resp"
  shows "SendDiscoveryResult w c result =
           (fst (interpretResponse w c resp), snd (interpretResponse w c resp),
            [DeriveTenant, Marshal,
             Do (setHeaders c \<lparr>Method = ''POST'', URL = APIEndpoint (Elchi (config c)),
                                Header = Map.empty, Body = jsonData\<rparr>),
             Decode])"
  using assms
  by (simp add: SendDiscoveryResult_def sendDiscoveryResult_def Let_def split: prod.splits)

lemma interpret_failure_status:
  assumes "StatusCode resp < 200 \<or> 300 \<le> StatusCode resp"
  shows "fst (interpretResponse w c resp) =
           Some (case json_Decode w (resp_Body resp) of
                   Inl err \<Rightarrow> ''API returned non-success status: '' @ fmt_d (StatusCode resp)
                 | Inr ar \<Rightarrow>
                     if Error ar \<noteq> ''''
                     then ''API error (HTTP '' @ fmt_d (StatusCode resp) @ ''): '' @ Error ar
                     else ''API returned non-success status: '' @ fmt_d (StatusCode resp))"
  using assms by (auto simp: interpretResponse_def split: sum.splits)

lemma interpret_success_status:
  assumes "200 \<le> StatusCode resp" and "StatusCode resp < 300"
  shows "fst (interpretResponse w c resp) =
           (case json_Decode w (resp_Body resp) of
              Inl err \<Rightarrow> None
            | Inr ar \<Rightarrow>
                if Success ar then None else Some (''API processing failed: '' @ Error ar))"
  using assms by (auto simp: interpretResponse_def split: sum.splits)

subsection \<open>C5: how a response is interpreted\<close>

text \<open>
  C5. Take a send that reaches a response. If the status is below 200 or at least 300, the
  send returns an error whose message contains the status code in decimal; when the body
  decodes with a non-empty error field, the message is \<open>API error (HTTP status): text\<close> and
  so contains that text too, otherwise it is \<open>API returned non-success status: status\<close>. If
  the status is in 200 to 299: an undecodable body gives no error, a decoded body with
  \<open>success = false\<close> gives the error \<open>API processing failed: text\<close> with the remote text, and
  a decoded body with \<open>success = true\<close> gives no error.
\<close>

theorem response_interpretation:
  assumes "APIEndpoint (Elchi (config c)) \<noteq> ''''"
    and "GetDiscoveryPayload c result = Inr payload"
    and "json_Marshal w payload = Inr jsonData"
    and "http_NewRequest w ''POST'' (APIEndpoint (Elchi (config c))) = None"
    and "httpClient_Do w (setHeaders c \<lparr>Method = ''POST'', URL = APIEndpoint (Elchi (config c)),
                                         Header = Map.empty, Body = jsonData\<rparr>) = Inr resp"
  shows "(StatusCode resp < 200 \<or> 300 \<le> StatusCode resp \<longrightarrow>
            (\<exists>msg. fst (SendDiscoveryResult w c result) = Some msg
               \<and> sublist (fmt_d (StatusCode resp)) msg
               \<and> (\<forall>ar. json_Decode w (resp_Body resp) = Inr ar \<and> Error ar \<noteq> '''' \<longrightarrow>
                     msg = ''API error (HTTP '' @ fmt_d (StatusCode resp) @ ''): '' @ Error ar
                     \<and> sublist (Error ar) msg)
               \<and> ((\<forall>ar. json_Decode w (resp_Body resp) = Inr ar \<longrightarrow> Error ar = '''') \<longrightarrow>
                     msg = ''API returned non-success status: '' @ fmt_d (StatusCode resp))))
         \<and> (200 \<le> StatusCode resp \<and> StatusCode resp < 300 \<longrightarrow>
              ((\<exists>err. json_Decode w (resp_Body resp) = Inl err) \<longrightarrow>
                  fst (SendDiscoveryResult w c result) = None)
            \<and> (\<forall>ar. json_Decode w (resp_Body resp) = Inr ar \<and> \<not> Success ar \<longrightarrow>
                  fst (SendDiscoveryResult w c result)
                    = Some (''API processing failed: '' @ Error ar)
                  \<and> sublist (Error ar) (''API processing failed: '' @ Error ar))
            \<and> (\<forall>ar. json_Decode w (resp_Body resp) = Inr ar \<and> Success ar \<longrightarrow>
                  fst (SendDiscoveryResult w c result) = None))"
proof -
  have fst_send: "fst (SendDiscoveryResult w c result) = fst (interpretResponse w c resp)"
    using send_reaches_response [OF assms] by simp
  have bad: "StatusCode resp < 200 \<or> 300 \<le> StatusCode resp \<longrightarrow>
            (\<exists>msg. fst (SendDiscoveryResult w c result) = Some msg
               \<and> sublist (fmt_d (StatusCode resp)) msg
               \<and> (\<forall>ar. json_Decode w (resp_Body resp) = Inr ar \<and> Error ar \<noteq> '''' \<longrightarrow>
                     msg = ''API error (HTTP '' @ fmt_d (StatusCode resp) @ ''): '' @ Error ar
                     \<and> sublist (Error ar) msg)
               \<and> ((\<forall>ar. json_Decode w (resp_Body resp) = Inr ar \<longrightarrow> Error ar = '''') \<longrightarrow>
                     msg = ''API returned non-success status: '' @ fmt_d (StatusCode resp)))"
  proof
    assume st: "StatusCode resp < 200 \<or> 300 \<le> StatusCode resp"
    note m = interpret_failure_status [OF st, of w c]
    show "\<exists>msg. fst (SendDiscoveryResult w c result) = Some msg
               \<and> sublist (fmt_d (StatusCode resp)) msg
               \<and> (\<forall>ar. json_Decode w (resp_Body resp) = Inr ar \<and> Error ar \<noteq> '''' \<longrightarrow>
                     msg = ''API error (HTTP '' @ fmt_d (StatusCode resp) @ ''): '' @ Error ar
                     \<and> sublist (Error ar) msg)
               \<and> ((\<forall>ar. json_Decode w (resp_Body resp) = Inr ar \<longrightarrow> Error ar = '''') \<longrightarrow>
                     msg = ''API returned non-success status: '' @ fmt_d (StatusCode resp))"
    proof (cases "json_Decode w (resp_Body resp)")
      case (Inl err)
      with m fst_send show ?thesis by (simp add: sublist_Cons_right)
    next
      case (Inr ar)
      show ?thesis
      proof (cases "Error ar = ''''")
        case True
        with Inr m fst_send show ?thesis by (simp add: sublist_Cons_right)
      next
        case False
        have "sublist (Error ar) ((fmt_d (StatusCode resp) @ ''): '') @ Error ar)"
          by (rule sublist_append_leftI)
        with False Inr m fst_send show ?thesis by (simp add: sublist_Cons_right)
      qed
    qed
  qed
  have good: "200 \<le> StatusCode resp \<and> StatusCode resp < 300 \<longrightarrow>
              ((\<exists>err. json_Decode w (resp_Body resp) = Inl err) \<longrightarrow>
                  fst (SendDiscoveryResult w c result) = None)
            \<and> (\<forall>ar. json_Decode w (resp_Body resp) = Inr ar \<and> \<not> Success ar \<longrightarrow>
                  fst (SendDiscoveryResult w c result)
                    = Some (''API processing failed: '' @ Error ar)
                  \<and> sublist (Error ar) (''API processing failed: '' @ Error ar))
            \<and> (\<forall>ar. json_Decode w (resp_Body resp) = Inr ar \<and> Success ar \<longrightarrow>
                  fst (SendDiscoveryResult w c result) = None)"
  proof
    assume "200 \<le> StatusCode resp \<and> StatusCode resp < 300"
    then have m: "fst (SendDiscoveryResult w c result) =
           (case json_Decode w (resp_Body resp) of
              Inl err \<Rightarrow> None
            | Inr ar \<Rightarrow>
                if Success ar then None else Some (''API processing failed: '' @ Error ar))"
      using interpret_success_status [of resp w c] fst_send by simp
    show "((\<exists>err. json_Decode w (resp_Body resp) = Inl err) \<longrightarrow>
                  fst (SendDiscoveryResult w c result) = None)
            \<and> (\<forall>ar. json_Decode w (resp_Body resp) = Inr ar \<and> \<not> Success ar \<longrightarrow>
                  fst (SendDiscoveryResult w c result)
                    = Some (''API processing failed: '' @ Error ar)
                  \<and> sublist (Error ar) (''API processing failed: '' @ Error ar))
            \<and> (\<forall>ar. json_Decode w (resp_Body resp) = Inr ar \<and> Success ar \<longrightarrow>
                  fst (SendDiscoveryResult w c result) = None)"
      unfolding m by (auto simp: sublist_Cons_right)
  qed
  from bad good show ?thesis by (rule conjI)
qed

theorem response_interpretation_witness:
  "fst (SendDiscoveryResult
          (example_world 400 (Inr \<lparr>Success = False, Message = '''',
                                    Error = ''Invalid cluster configuration''\<rparr>))
          (example_client ''https://api.example.com'' ''uuid--project'') example_result)
     = Some ''API error (HTTP 400): Invalid cluster configuration''
   \<and> fst (SendDiscoveryResult (example_world 200 (Inl ''invalid character''))
          (example_client ''https://api.example.com'' ''uuid--project'') example_result)
     = None
   \<and> fst (SendDiscoveryResult
          (example_world 200 (Inr \<lparr>Success = False, Message = '''', Error = ''X''\<rparr>))
          (example_client ''https://api.example.com'' ''uuid--project'') example_result)
     = Some ''API processing failed: X''"
proof -
  let ?c = "example_client ''https://api.example.com'' ''uuid--project''"
  let ?req = "setHeaders ?c \<lparr>Method = ''POST'', URL = APIEndpoint (Elchi (config ?c)),
                               Header = Map.empty, Body = ''{}''\<rparr>"
  let ?resp = "\<lambda>status. \<lparr>StatusCode = status, Location = '''', resp_Body = ''body''\<rparr>"
  have h1: "APIEndpoint (Elchi (config ?c)) \<noteq> ''''"
    by (simp add: example_client_def NewClient_def)
  have h2: "GetDiscoveryPayload ?c example_result
              = Inr \<lparr>Project = ''project'', Data = example_result\<rparr>"
    by (simp add: GetDiscoveryPayload_def extract_eq example_client_def NewClient_def)
  have h3: "json_Marshal (example_world status decoded)
              \<lparr>Project = ''project'', Data = example_result\<rparr> = Inr ''{}''"
    for status decoded
    by (simp add: example_world_simps)
  have h4: "http_NewRequest (example_world status decoded) ''POST''
              (APIEndpoint (Elchi (config ?c))) = None"
    for status decoded
    by (simp add: example_world_simps)
  have h5: "httpClient_Do (example_world status decoded) ?req = Inr (?resp status)"
    for status decoded
    by (simp add: example_world_simps)
  have d: "json_Decode (example_world status decoded) (resp_Body (?resp status)) = decoded"
    for status decoded
    by (simp add: example_world_simps)
  have f: "fmt_d 400 = ''400''"
    by (simp add: fmt_d_def digits.simps)
  from response_interpretation [OF h1 h2 h3 h4 h5, of 400 "Inr \<lparr>Success = False, Message = '''',
                                    Error = ''Invalid cluster configuration''\<rparr>"]
    response_interpretation [OF h1 h2 h3 h4 h5, of 200 "Inl ''invalid character''"]
    response_interpretation [OF h1 h2 h3 h4 h5, of 200
      "Inr \<lparr>Success = False, Message = '''', Error = ''X''\<rparr>"]
  show ?thesis
    unfolding d by (simp add: f)
qed

lemma interpretResponse_flag_kept:
  "initialCompleted c \<Longrightarrow> initialCompleted (snd (interpretResponse w c resp))"
  by (simp add: interpretResponse_def split: sum.splits)

lemma interpretResponse_flag_set:
  assumes "\<not> initialCompleted c" and "initialCompleted (snd (interpretResponse w c resp))"
  shows "200 \<le> StatusCode resp \<and> StatusCode resp < 300
         \<and> (\<exists>ar. json_Decode w (resp_Body resp) = Inr ar \<and> Success ar)
         \<and> fst (interpretResponse w c resp) = None"
  using assms by (auto simp: interpretResponse_def split: sum.splits if_splits)

lemma interpretResponse_success:
  assumes "200 \<le> StatusCode resp" and "StatusCode resp < 300"
    and "json_Decode w (resp_Body resp) = Inr ar" and "Success ar"
  shows "interpretResponse w c resp = (None, c\<lparr>initialCompleted := True\<rparr>)"
  using assms by (simp add: interpretResponse_def)

text \<open>Every outcome of a send: either the client is returned as it was, or a response
  was received and interpreted.\<close>

lemma send_client_cases:
  "fst (snd (sendDiscoveryResult w c result shouldSend)) = c
   \<or> (\<exists>req resp. httpClient_Do w req = Inr resp
         \<and> Do req \<in> set (snd (snd (sendDiscoveryResult w c result shouldSend)))
         \<and> fst (sendDiscoveryResult w c result shouldSend) = fst (interpretResponse w c resp)
         \<and> fst (snd (sendDiscoveryResult w c result shouldSend))
             = snd (interpretResponse w c resp))"
  by (auto simp: sendDiscoveryResult_def Let_def
      split: sum.splits option.splits prod.splits)

lemma send_flag_kept:
  assumes "initialCompleted c"
  shows "initialCompleted (fst (snd (sendDiscoveryResult w c result shouldSend)))"
  using send_client_cases [of w c result shouldSend] assms
  by (auto simp: interpretResponse_flag_kept)

lemma send_initial_header:
  assumes "req \<in> set (transmitted (snd (snd (sendDiscoveryResult w c result shouldSend))))"
  shows "Header req ''initial'' = Some (if initialCompleted c then ''false'' else ''true'')"
  using transmitted_send [of w c result shouldSend] assms
  by (auto simp: setHeaders_initial)

lemma sendAll_flag_kept:
  "initialCompleted c \<Longrightarrow> initialCompleted (fst (sendAll c ticks))"
proof (induction ticks arbitrary: c)
  case Nil
  then show ?case by simp
next
  case (Cons tick ticks)
  obtain w result where tick: "tick = (w, result)" by (cases tick)
  obtain e c' steps where s: "SendDiscoveryResult w c result = (e, c', steps)"
    by (cases "SendDiscoveryResult w c result")
  from send_flag_kept [OF Cons.prems, of w result True] s
  have "initialCompleted c'" by (simp add: SendDiscoveryResult_def)
  from Cons.IH [OF this] tick s show ?case
    by (auto split: prod.splits)
qed

lemma sendAll_initial_false:
  assumes "initialCompleted c" and "out \<in> set (snd (sendAll c ticks))"
    and "req \<in> set (transmitted (snd out))"
  shows "Header req ''initial'' = Some ''false''"
  using assms
proof (induction ticks arbitrary: c)
  case Nil
  then show ?case by simp
next
  case (Cons tick ticks)
  obtain w result where tick: "tick = (w, result)" by (cases tick)
  obtain e c' steps where s: "SendDiscoveryResult w c result = (e, c', steps)"
    by (cases "SendDiscoveryResult w c result")
  from send_flag_kept [OF Cons.prems(1), of w result True] s
  have c': "initialCompleted c'" by (simp add: SendDiscoveryResult_def)
  from Cons.prems(2) tick s
  consider "out = (e, steps)" | "out \<in> set (snd (sendAll c' ticks))"
    by (auto split: prod.splits)
  then show ?case
  proof cases
    case 1
    with Cons.prems(3) s
    have "req \<in> set (transmitted (snd (snd (sendDiscoveryResult w c result True))))"
      by (simp add: SendDiscoveryResult_def)
    from send_initial_header [OF this] Cons.prems(1) show ?thesis by simp
  next
    case 2
    from Cons.IH [OF c' 2 Cons.prems(3)] show ?thesis .
  qed
qed

subsection \<open>C1: the lifecycle flag only ever goes from false to true\<close>

text \<open>
  C1. A new client starts with the flag unset. A send never unsets a flag that is set,
  whatever its outcome. A send sets an unset flag only when a request was transmitted, the
  response had a status in 200 to 299 and its body decoded with \<open>success = true\<close>, and then
  the send returns no error; such a response does set the flag. Every request a send
  transmits carries the header \<open>initial\<close>, equal to \<open>true\<close> when the flag was unset at that
  send and to \<open>false\<close> when it was set. Over any run of sends by a client whose flag is
  set, the flag stays set and every transmitted request carries \<open>false\<close>.
\<close>

theorem lifecycle_flag_one_way:
  "\<not> initialCompleted (NewClient cfg)
   \<and> (initialCompleted c \<longrightarrow> initialCompleted (fst (snd (SendDiscoveryResult w c result))))
   \<and> (\<not> initialCompleted c \<and> initialCompleted (fst (snd (SendDiscoveryResult w c result))) \<longrightarrow>
        (\<exists>req resp ar. Do req \<in> set (snd (snd (SendDiscoveryResult w c result)))
            \<and> httpClient_Do w req = Inr resp
            \<and> 200 \<le> StatusCode resp \<and> StatusCode resp < 300
            \<and> json_Decode w (resp_Body resp) = Inr ar \<and> Success ar
            \<and> fst (SendDiscoveryResult w c result) = None))
   \<and> (200 \<le> StatusCode resp \<and> StatusCode resp < 300
        \<and> json_Decode w (resp_Body resp) = Inr ar \<and> Success ar \<longrightarrow>
        initialCompleted (snd (interpretResponse w c resp)))
   \<and> (\<forall>req \<in> set (transmitted (snd (snd (SendDiscoveryResult w c result)))).
        Header req ''initial'' = Some (if initialCompleted c then ''false'' else ''true''))
   \<and> (initialCompleted c \<longrightarrow>
        initialCompleted (fst (sendAll c ticks))
        \<and> (\<forall>out \<in> set (snd (sendAll c ticks)). \<forall>req \<in> set (transmitted (snd out)).
              Header req ''initial'' = Some ''false''))"
proof (intro conjI impI ballI)
  show "\<not> initialCompleted (NewClient cfg)"
    by (simp add: NewClient_def)
next
  assume "initialCompleted c"
  then show "initialCompleted (fst (snd (SendDiscoveryResult w c result)))"
    unfolding SendDiscoveryResult_def by (rule send_flag_kept)
next
  assume a: "\<not> initialCompleted c \<and> initialCompleted (fst (snd (SendDiscoveryResult w c result)))"
  then have "fst (snd (sendDiscoveryResult w c result True)) \<noteq> c"
    by (auto simp: SendDiscoveryResult_def)
  with send_client_cases [of w c result True]
  obtain req resp where r: "httpClient_Do w req = Inr resp"
    and d: "Do req \<in> set (snd (snd (sendDiscoveryResult w c result True)))"
    and e: "fst (sendDiscoveryResult w c result True) = fst (interpretResponse w c resp)"
    and c': "fst (snd (sendDiscoveryResult w c result True)) = snd (interpretResponse w c resp)"
    by blast
  from a c' have "initialCompleted (snd (interpretResponse w c resp))"
    by (simp add: SendDiscoveryResult_def)
  from interpretResponse_flag_set [OF _ this] a
  obtain ar where "200 \<le> StatusCode resp" "StatusCode resp < 300"
    "json_Decode w (resp_Body resp) = Inr ar" "Success ar"
    "fst (interpretResponse w c resp) = None"
    by blast
  with r d e
  show "\<exists>req resp ar. Do req \<in> set (snd (snd (SendDiscoveryResult w c result)))
            \<and> httpClient_Do w req = Inr resp
            \<and> 200 \<le> StatusCode resp \<and> StatusCode resp < 300
            \<and> json_Decode w (resp_Body resp) = Inr ar \<and> Success ar
            \<and> fst (SendDiscoveryResult w c result) = None"
    unfolding SendDiscoveryResult_def by auto
next
  assume "200 \<le> StatusCode resp \<and> StatusCode resp < 300
        \<and> json_Decode w (resp_Body resp) = Inr ar \<and> Success ar"
  then show "initialCompleted (snd (interpretResponse w c resp))"
    by (simp add: interpretResponse_success)
next
  fix req
  assume "req \<in> set (transmitted (snd (snd (SendDiscoveryResult w c result))))"
  then show "Header req ''initial'' = Some (if initialCompleted c then ''false'' else ''true'')"
    unfolding SendDiscoveryResult_def by (rule send_initial_header)
next
  assume "initialCompleted c"
  then show "initialCompleted (fst (sendAll c ticks))"
    by (rule sendAll_flag_kept)
next
  fix out req
  assume "initialCompleted c" "out \<in> set (snd (sendAll c ticks))"
    "req \<in> set (transmitted (snd out))"
  then show "Header req ''initial'' = Some ''false''"
    by (rule sendAll_initial_false)
qed

theorem lifecycle_flag_one_way_witness:
  "\<not> initialCompleted (example_client ''https://api.example.com'' ''uuid--project'')
   \<and> initialCompleted (fst (sendAll (example_client ''https://api.example.com'' ''uuid--project'')
         [(example_world 200 (Inr \<lparr>Success = True, Message = ''ok'', Error = ''''\<rparr>), example_result),
          (example_world 500 (Inl ''EOF''), example_result),
          (example_world 200 (Inl ''EOF''), example_result)]))
   \<and> map (\<lambda>out. map (\<lambda>req. Header req ''initial'') (transmitted (snd out)))
        (snd (sendAll (example_client ''https://api.example.com'' ''uuid--project'')
         [(example_world 200 (Inr \<lparr>Success = True, Message = ''ok'', Error = ''''\<rparr>), example_result),
          (example_world 500 (Inl ''EOF''), example_result),
          (example_world 200 (Inl ''EOF''), example_result)]))
      = [[Some ''true''], [Some ''false''], [Some ''false'']]"
proof -
  let ?c0 = "example_client ''https://api.example.com'' ''uuid--project''"
  let ?c1 = "?c0\<lparr>initialCompleted := True\<rparr>"
  let ?ok = "example_world 200 (Inr \<lparr>Success = True, Message = ''ok'', Error = ''''\<rparr>)"
  let ?req = "\<lambda>c. setHeaders c \<lparr>Method = ''POST'', URL = ''https://api.example.com'',
                                   Header = Map.empty, Body = ''{}''\<rparr>"
  have c0: "\<not> initialCompleted ?c0"
    by (simp add: example_client_def NewClient_def)
  have p: "GetDiscoveryPayload c example_result
             = Inr \<lparr>Project = ''project'', Data = example_result\<rparr>"
    if "config c = config ?c0" for c
    using that
    by (simp add: GetDiscoveryPayload_def extract_eq example_client_def NewClient_def)
  have e: "APIEndpoint (Elchi (config ?c0)) = ''https://api.example.com''"
    by (simp add: example_client_def NewClient_def)
  have s1: "SendDiscoveryResult ?ok ?c0 example_result
              = (None, ?c1, [DeriveTenant, Marshal, Do (?req ?c0), Decode])"
    by (simp add: SendDiscoveryResult_def sendDiscoveryResult_def p e interpretResponse_def
        example_world_simps)
  have s2: "SendDiscoveryResult (example_world 500 (Inl ''EOF'')) ?c1 example_result
              = (Some (''API returned non-success status: '' @ fmt_d 500), ?c1,
                 [DeriveTenant, Marshal, Do (?req ?c1), Decode])"
    by (simp add: SendDiscoveryResult_def sendDiscoveryResult_def p e interpretResponse_def
        example_world_simps)
  have s3: "SendDiscoveryResult (example_world 200 (Inl ''EOF'')) ?c1 example_result
              = (None, ?c1, [DeriveTenant, Marshal, Do (?req ?c1), Decode])"
    by (simp add: SendDiscoveryResult_def sendDiscoveryResult_def p e interpretResponse_def
        example_world_simps)
  from lifecycle_flag_one_way
         [of "config ?c0" ?c0 ?ok example_result "\<lparr>StatusCode = 200, Location = '''', resp_Body = ''body''\<rparr>"
             "\<lparr>Success = True, Message = ''ok'', Error = ''''\<rparr>" "[]"]
       lifecycle_flag_one_way
         [of "config ?c0" ?c1 ?ok example_result "\<lparr>StatusCode = 200, Location = '''', resp_Body = ''body''\<rparr>"
             "\<lparr>Success = True, Message = ''ok'', Error = ''''\<rparr>"
             "[(example_world 500 (Inl ''EOF''), example_result),
               (example_world 200 (Inl ''EOF''), example_result)]"]
  show ?thesis
    by (simp add: s1 s2 s3 c0)
qed

section \<open>Properties of the classifier and the collector\<close>

lemma scanTaints_empty:
  "scanTaints taints [] =
     (if \<exists>t \<in> set taints. Key t = label_control_plane \<or> Key t = label_master
      then [''control-plane''] else [])"
  by (induction taints) simp_all

lemma scanConditions_find:
  "scanConditions conds =
     (case find (\<lambda>c. cond_Type c = NodeReady) conds of
        None \<Rightarrow> ''Unknown''
      | Some c \<Rightarrow> if cond_Status c = ConditionTrue then ''Ready'' else ''NotReady'')"
  by (induction conds) simp_all

lemma scanConditions_filter:
  "scanConditions (filter (\<lambda>c. cond_Type c = NodeReady) conds) = scanConditions conds"
  by (induction conds) simp_all

lemma scanConditions_absent:
  "(\<forall>c \<in> set conds. cond_Type c \<noteq> NodeReady) \<Longrightarrow> scanConditions conds = ''Unknown''"
  by (induction conds) simp_all

lemma Nodes_appendNodes:
  "Nodes (appendNodes items result) = Nodes result @ map nodeInfoOf items"
  by (induction items arbitrary: result) simp_all

lemma appendNodes_other_fields:
  "NodeCount (appendNodes items result) = NodeCount result
   \<and> ClusterInfo (appendNodes items result) = ClusterInfo result
   \<and> Timestamp (appendNodes items result) = Timestamp result
   \<and> Duration (appendNodes items result) = Duration result"
  by (induction items arbitrary: result) simp_all

subsection \<open>C6: the roles of a node\<close>

text \<open>
  C6. With the four role labels read as present or absent: the control-plane label gives
  \<open>control-plane\<close>; the master label gives \<open>master\<close> exactly when the control-plane label is
  absent, so the two never occur together; the worker and etcd labels each add their role,
  whatever the others are; the roles from labels come in the order control-plane or
  master, worker, etcd. When none of the four labels is present, a taint keyed by the
  control-plane or master label gives exactly \<open>control-plane\<close>, and without such a taint the
  result is exactly \<open>worker\<close>. The list of roles is never empty.
\<close>

theorem getNodeRoles_derivation:
  "getNodeRoles node \<noteq> []
   \<and> (Labels node label_control_plane \<noteq> None \<longrightarrow>
        hd (getNodeRoles node) = ''control-plane'' \<and> ''master'' \<notin> set (getNodeRoles node))
   \<and> (''master'' \<in> set (getNodeRoles node) \<longleftrightarrow>
        Labels node label_master \<noteq> None \<and> Labels node label_control_plane = None)
   \<and> (Labels node label_worker \<noteq> None \<longrightarrow> ''worker'' \<in> set (getNodeRoles node))
   \<and> (''etcd'' \<in> set (getNodeRoles node) \<longleftrightarrow> Labels node label_etcd \<noteq> None)
   \<and> (Labels node label_control_plane \<noteq> None \<or> Labels node label_master \<noteq> None
        \<or> Labels node label_worker \<noteq> None \<or> Labels node label_etcd \<noteq> None \<longrightarrow>
        getNodeRoles node =
          (if Labels node label_control_plane \<noteq> None then [''control-plane'']
           else if Labels node label_master \<noteq> None then [''master''] else [])
          @ (if Labels node label_worker \<noteq> None then [''worker''] else [])
          @ (if Labels node label_etcd \<noteq> None then [''etcd''] else []))
   \<and> (Labels node label_control_plane = None \<and> Labels node label_master = None
        \<and> Labels node label_worker = None \<and> Labels node label_etcd = None \<longrightarrow>
        getNodeRoles node =
          (if \<exists>t \<in> set (Taints node). Key t = label_control_plane \<or> Key t = label_master
           then [''control-plane''] else [''worker'']))"
proof (cases "Labels node label_control_plane = None";
       cases "Labels node label_master = None";
       cases "Labels node label_worker = None";
       cases "Labels node label_etcd = None")
qed (simp_all add: getNodeRoles_def scanTaints_empty)

theorem getNodeRoles_derivation_witness:
  "getNodeRoles (example_node ''node1''
       [(''node-role.kubernetes.io/master'', ''''), (''node-role.kubernetes.io/control-plane'', ''''),
        (''node-role.kubernetes.io/etcd'', '''')] [] [])
     = [''control-plane'', ''etcd'']
   \<and> getNodeRoles (example_node ''node2'' [(''kubernetes.io/os'', ''linux'')]
       [\<lparr>Key = ''node-role.kubernetes.io/master'', Value = '''', Effect = ''NoSchedule''\<rparr>] [])
     = [''control-plane'']
   \<and> getNodeRoles (example_node ''node3'' [] [] []) = [''worker'']"
proof -
  let ?n1 = "example_node ''node1''
       [(''node-role.kubernetes.io/master'', ''''), (''node-role.kubernetes.io/control-plane'', ''''),
        (''node-role.kubernetes.io/etcd'', '''')] [] []"
  let ?n2 = "example_node ''node2'' [(''kubernetes.io/os'', ''linux'')]
       [\<lparr>Key = ''node-role.kubernetes.io/master'', Value = '''', Effect = ''NoSchedule''\<rparr>] []"
  let ?n3 = "example_node ''node3'' [] [] []"
  have l1: "Labels ?n1 label_control_plane = Some ''''" "Labels ?n1 label_master = Some ''''"
    "Labels ?n1 label_worker = None" "Labels ?n1 label_etcd = Some ''''"
    by (simp_all add: example_node_def label_control_plane_def label_master_def
        label_worker_def label_etcd_def)
  have l2: "Labels ?n2 label_control_plane = None" "Labels ?n2 label_master = None"
    "Labels ?n2 label_worker = None" "Labels ?n2 label_etcd = None"
    "Taints ?n2 = [\<lparr>Key = label_master, Value = '''', Effect = ''NoSchedule''\<rparr>]"
    by (simp_all add: example_node_def label_control_plane_def label_master_def
        label_worker_def label_etcd_def)
  have l3: "Labels ?n3 label_control_plane = None" "Labels ?n3 label_master = None"
    "Labels ?n3 label_worker = None" "Labels ?n3 label_etcd = None" "Taints ?n3 = []"
    by (simp_all add: example_node_def)
  from getNodeRoles_derivation [of ?n1] getNodeRoles_derivation [of ?n2]
    getNodeRoles_derivation [of ?n3]
  show ?thesis
    unfolding l1 l2 l3 by simp
qed

subsection \<open>C7: the status of a node\<close>

text \<open>
  C7. \<open>getNodeStatus\<close> returns one of \<open>Ready\<close>, \<open>NotReady\<close> and \<open>Unknown\<close> for every node.
  Without a condition of type \<open>Ready\<close> (an empty list included) it is \<open>Unknown\<close>. With one,
  the first such condition in the list decides: \<open>Ready\<close> when its value is \<open>True\<close>,
  \<open>NotReady\<close> for any other value; so a node whose \<open>Ready\<close> conditions are all \<open>True\<close> is
  \<open>Ready\<close>, and one whose \<open>Ready\<close> conditions are all different from \<open>True\<close> is \<open>NotReady\<close>.
  Conditions of other types do not matter: dropping them leaves the status unchanged.
\<close>

theorem getNodeStatus_derivation:
  "getNodeStatus node \<in> {''Ready'', ''NotReady'', ''Unknown''}
   \<and> ((\<forall>c \<in> set (Conditions node). cond_Type c \<noteq> ''Ready'') \<longrightarrow> getNodeStatus node = ''Unknown'')
   \<and> (Conditions node = [] \<longrightarrow> getNodeStatus node = ''Unknown'')
   \<and> (\<forall>c. find (\<lambda>c. cond_Type c = ''Ready'') (Conditions node) = Some c \<longrightarrow>
          getNodeStatus node = (if cond_Status c = ''True'' then ''Ready'' else ''NotReady''))
   \<and> ((\<exists>c \<in> set (Conditions node). cond_Type c = ''Ready'')
        \<and> (\<forall>c \<in> set (Conditions node). cond_Type c = ''Ready'' \<longrightarrow> cond_Status c = ''True'')
        \<longrightarrow> getNodeStatus node = ''Ready'')
   \<and> ((\<exists>c \<in> set (Conditions node). cond_Type c = ''Ready'')
        \<and> (\<forall>c \<in> set (Conditions node). cond_Type c = ''Ready'' \<longrightarrow> cond_Status c \<noteq> ''True'')
        \<longrightarrow> getNodeStatus node = ''NotReady'')
   \<and> getNodeStatus (node\<lparr>Conditions := filter (\<lambda>c. cond_Type c = ''Ready'') (Conditions node)\<rparr>)
        = getNodeStatus node"
proof -
  have r: "NodeReady = ''Ready''" and t: "ConditionTrue = ''True''"
    by (simp_all add: NodeReady_def ConditionTrue_def)
  note f = scanConditions_find [of "Conditions node", unfolded r t]
  have 1: "getNodeStatus node \<in> {''Ready'', ''NotReady'', ''Unknown''}"
    unfolding getNodeStatus_def f by (simp split: option.splits)
  have 2: "(\<forall>c \<in> set (Conditions node). cond_Type c \<noteq> ''Ready'') \<longrightarrow> getNodeStatus node = ''Unknown''"
    using scanConditions_absent [of "Conditions node"] by (simp add: getNodeStatus_def r)
  have 3: "Conditions node = [] \<longrightarrow> getNodeStatus node = ''Unknown''"
    by (simp add: getNodeStatus_def)
  have 4: "\<forall>c. find (\<lambda>c. cond_Type c = ''Ready'') (Conditions node) = Some c \<longrightarrow>
          getNodeStatus node = (if cond_Status c = ''True'' then ''Ready'' else ''NotReady'')"
    unfolding getNodeStatus_def f by simp
  have some: "\<exists>d. find (\<lambda>c. cond_Type c = ''Ready'') (Conditions node) = Some d
                \<and> d \<in> set (Conditions node) \<and> cond_Type d = ''Ready''"
    if "\<exists>c \<in> set (Conditions node). cond_Type c = ''Ready''"
  proof (cases "find (\<lambda>c. cond_Type c = ''Ready'') (Conditions node)")
    case None
    with that show ?thesis by (simp add: find_None_iff)
  next
    case (Some d)
    then show ?thesis by (auto simp: find_Some_iff)
  qed
  have 5: "(\<exists>c \<in> set (Conditions node). cond_Type c = ''Ready'')
        \<and> (\<forall>c \<in> set (Conditions node). cond_Type c = ''Ready'' \<longrightarrow> cond_Status c = ''True'')
        \<longrightarrow> getNodeStatus node = ''Ready''"
  proof
    assume a: "(\<exists>c \<in> set (Conditions node). cond_Type c = ''Ready'')
        \<and> (\<forall>c \<in> set (Conditions node). cond_Type c = ''Ready'' \<longrightarrow> cond_Status c = ''True'')"
    with some obtain d where "find (\<lambda>c. cond_Type c = ''Ready'') (Conditions node) = Some d"
      and "cond_Status d = ''True''" by blast
    with 4 show "getNodeStatus node = ''Ready''" by simp
  qed
  have 6: "(\<exists>c \<in> set (Conditions node). cond_Type c = ''Ready'')
        \<and> (\<forall>c \<in> set (Conditions node). cond_Type c = ''Ready'' \<longrightarrow> cond_Status c \<noteq> ''True'')
        \<longrightarrow> getNodeStatus node = ''NotReady''"
  proof
    assume a: "(\<exists>c \<in> set (Conditions node). cond_Type c = ''Ready'')
        \<and> (\<forall>c \<in> set (Conditions node). cond_Type c = ''Ready'' \<longrightarrow> cond_Status c \<noteq> ''True'')"
    with some obtain d where "find (\<lambda>c. cond_Type c = ''Ready'') (Conditions node) = Some d"
      and "cond_Status d \<noteq> ''True''" by blast
    with 4 show "getNodeStatus node = ''NotReady''" by simp
  qed
  have 7: "getNodeStatus (node\<lparr>Conditions := filter (\<lambda>c. cond_Type c = ''Ready'') (Conditions node)\<rparr>)
        = getNodeStatus node"
    using scanConditions_filter [of "Conditions node"] by (simp add: getNodeStatus_def r)
  from 1 2 3 4 5 6 7 show ?thesis by blast
qed

theorem getNodeStatus_derivation_witness:
  "getNodeStatus (example_node ''node1'' [] []
       [\<lparr>cond_Type = ''MemoryPressure'', cond_Status = ''True''\<rparr>,
        \<lparr>cond_Type = ''Ready'', cond_Status = ''True''\<rparr>]) = ''Ready''
   \<and> getNodeStatus (example_node ''node2'' [] []
       [\<lparr>cond_Type = ''Ready'', cond_Status = ''Unknown''\<rparr>,
        \<lparr>cond_Type = ''DiskPressure'', cond_Status = ''True''\<rparr>]) = ''NotReady''
   \<and> getNodeStatus (example_node ''node3'' [] []
       [\<lparr>cond_Type = ''DiskPressure'', cond_Status = ''True''\<rparr>]) = ''Unknown''"
proof -
  let ?n1 = "example_node ''node1'' [] []
       [\<lparr>cond_Type = ''MemoryPressure'', cond_Status = ''True''\<rparr>,
        \<lparr>cond_Type = ''Ready'', cond_Status = ''True''\<rparr>]"
  let ?n2 = "example_node ''node2'' [] []
       [\<lparr>cond_Type = ''Ready'', cond_Status = ''Unknown''\<rparr>,
        \<lparr>cond_Type = ''DiskPressure'', cond_Status = ''True''\<rparr>]"
  let ?n3 = "example_node ''node3'' [] []
       [\<lparr>cond_Type = ''DiskPressure'', cond_Status = ''True''\<rparr>]"
  have c: "Conditions ?n1 = [\<lparr>cond_Type = ''MemoryPressure'', cond_Status = ''True''\<rparr>,
        \<lparr>cond_Type = ''Ready'', cond_Status = ''True''\<rparr>]"
    "Conditions ?n2 = [\<lparr>cond_Type = ''Ready'', cond_Status = ''Unknown''\<rparr>,
        \<lparr>cond_Type = ''DiskPressure'', cond_Status = ''True''\<rparr>]"
    "Conditions ?n3 = [\<lparr>cond_Type = ''DiskPressure'', cond_Status = ''True''\<rparr>]"
    by (simp_all add: example_node_def)
  from getNodeStatus_derivation [of ?n1] getNodeStatus_derivation [of ?n2]
    getNodeStatus_derivation [of ?n3]
  show ?thesis
    unfolding c by simp
qed

lemma DiscoverNodes_listed:
  assumes "Nodes_List (client s) = Inr items"
  shows "DiscoverNodes s clk =
           Inr \<lparr>Timestamp = now clk, ClusterInfo = getClusterInfo s,
                NodeCount = int (length items), Nodes = map nodeInfoOf items,
                Duration = since clk\<rparr>"
proof -
  let ?init = "\<lparr>Timestamp = now clk, ClusterInfo = getClusterInfo s,
                 NodeCount = int (length items), Nodes = [], Duration = since clk\<rparr>"
  have "appendNodes items ?init = ?init\<lparr>Nodes := map nodeInfoOf items\<rparr>"
    using Nodes_appendNodes [of items ?init] appendNodes_other_fields [of items ?init]
    by (intro DiscoveryResult.equality) simp_all
  with assms show ?thesis
    by (simp add: DiscoverNodes_def)
qed

lemma DiscoverNodes_error:
  "DiscoverNodes s clk = Inl e \<longleftrightarrow> Nodes_List (client s) = Inl e"
  by (simp add: DiscoverNodes_def split: sum.splits)

lemma nodeInfoOf_fields:
  "ni_Name (nodeInfoOf node) = Name node
   \<and> Roles (nodeInfoOf node) = getNodeRoles node
   \<and> Status (nodeInfoOf node) = getNodeStatus node
   \<and> Version (nodeInfoOf node) = KubeletVersion node
   \<and> ni_Addresses (nodeInfoOf node) = fillAddresses (Addresses node) Map.empty"
  by (simp add: nodeInfoOf_def)

subsection \<open>C8: the report counts the nodes it lists\<close>

text \<open>
  C8. Whenever the cluster API returns a node list, the empty one included,
  \<open>DiscoverNodes\<close> returns a report and not an error; in it \<open>NodeCount\<close> is the length of
  \<open>Nodes\<close>, which is the length of the list returned, and the i-th entry of \<open>Nodes\<close> is
  built from the i-th node listed: its name, its roles, its status and its kubelet
  version. For an empty list the count is 0 and \<open>Nodes\<close> is empty.
\<close>

theorem DiscoverNodes_node_count:
  assumes "Nodes_List (client s) = Inr items"
  shows "\<exists>r. DiscoverNodes s clk = Inr r
           \<and> NodeCount r = int (length (Nodes r))
           \<and> length (Nodes r) = length items
           \<and> map ni_Name (Nodes r) = map Name items
           \<and> (\<forall>i < length items.
                 ni_Name (Nodes r ! i) = Name (items ! i)
                 \<and> Roles (Nodes r ! i) = getNodeRoles (items ! i)
                 \<and> Status (Nodes r ! i) = getNodeStatus (items ! i)
                 \<and> Version (Nodes r ! i) = KubeletVersion (items ! i))
           \<and> (items = [] \<longrightarrow> NodeCount r = 0 \<and> Nodes r = [])"
  unfolding DiscoverNodes_listed [OF assms]
  by (simp add: nodeInfoOf_fields comp_def)

theorem DiscoverNodes_node_count_witness:
  "(case DiscoverNodes (example_service (Inr []) (Inr (Some \<lparr>GitVersion = ''v1.28.2''\<rparr>)))
           example_clock of
      Inl e \<Rightarrow> False
    | Inr r \<Rightarrow> NodeCount r = 0 \<and> Nodes r = [])
   \<and> (case DiscoverNodes
           (example_service
              (Inr [example_node ''node1'' [(''node-role.kubernetes.io/control-plane'', '''')] []
                      [\<lparr>cond_Type = ''Ready'', cond_Status = ''True''\<rparr>],
                    example_node ''node2'' [] []
                      [\<lparr>cond_Type = ''Ready'', cond_Status = ''False''\<rparr>]])
              (Inr (Some \<lparr>GitVersion = ''v1.28.2''\<rparr>)))
           example_clock of
      Inl e \<Rightarrow> False
    | Inr r \<Rightarrow> NodeCount r = 2 \<and> length (Nodes r) = 2
              \<and> map ni_Name (Nodes r) = [''node1'', ''node2''])"
proof -
  let ?v = "Inr (Some \<lparr>GitVersion = ''v1.28.2''\<rparr>)"
  let ?items = "[example_node ''node1'' [(''node-role.kubernetes.io/control-plane'', '''')] []
                      [\<lparr>cond_Type = ''Ready'', cond_Status = ''True''\<rparr>],
                    example_node ''node2'' [] []
                      [\<lparr>cond_Type = ''Ready'', cond_Status = ''False''\<rparr>]]"
  have l0: "Nodes_List (client (example_service (Inr []) ?v)) = Inr []"
    and l2: "Nodes_List (client (example_service (Inr ?items) ?v)) = Inr ?items"
    by (simp_all add: example_service_def NewService_def)
  have n: "map Name ?items = [''node1'', ''node2'']"
    by (simp add: example_node_def)
  from DiscoverNodes_node_count [OF l0, of example_clock]
    DiscoverNodes_node_count [OF l2, of example_clock]
  show ?thesis
    unfolding n by auto
qed

subsection \<open>C9: a failed version query does not fail the collection\<close>

text \<open>
  C9. When the server-version query returns an error (or no version), the cluster
  information is the configured name with the version \<open>unknown\<close>; \<open>DiscoverNodes\<close> then
  still returns a report with that cluster information whenever the node list is returned,
  and the only error \<open>DiscoverNodes\<close> can return is the error of the node listing,
  never one from the version query.
\<close>

theorem version_failure_is_not_fatal:
  assumes "ServerVersion (client s) = Inl err \<or> ServerVersion (client s) = Inr None"
  shows "getClusterInfo s = \<lparr>ci_Name = clusterName s, ci_Version = ''unknown''\<rparr>
         \<and> (\<forall>items. Nodes_List (client s) = Inr items \<longrightarrow>
               (\<exists>r. DiscoverNodes s clk = Inr r
                  \<and> ci_Version (ClusterInfo r) = ''unknown''
                  \<and> ci_Name (ClusterInfo r) = clusterName s))
         \<and> (\<forall>e. DiscoverNodes s clk = Inl e \<longrightarrow> Nodes_List (client s) = Inl e)"
proof (intro conjI allI impI)
  from assms show c: "getClusterInfo s = \<lparr>ci_Name = clusterName s, ci_Version = ''unknown''\<rparr>"
    by (auto simp: getClusterInfo_def)
  fix items
  assume "Nodes_List (client s) = Inr items"
  from DiscoverNodes_listed [OF this, of clk] c
  show "\<exists>r. DiscoverNodes s clk = Inr r
                  \<and> ci_Version (ClusterInfo r) = ''unknown''
                  \<and> ci_Name (ClusterInfo r) = clusterName s"
    by simp
next
  fix e
  assume "DiscoverNodes s clk = Inl e"
  then show "Nodes_List (client s) = Inl e"
    by (simp add: DiscoverNodes_error)
qed

theorem version_failure_is_not_fatal_witness:
  "getClusterInfo (example_service (Inr []) (Inl ''connection refused''))
     = \<lparr>ci_Name = ''test-cluster'', ci_Version = ''unknown''\<rparr>
   \<and> (case DiscoverNodes (example_service (Inr []) (Inl ''connection refused'')) example_clock of
        Inl e \<Rightarrow> False
      | Inr r \<Rightarrow> ClusterInfo r = \<lparr>ci_Name = ''test-cluster'', ci_Version = ''unknown''\<rparr>)"
proof -
  let ?s = "example_service (Inr []) (Inl ''connection refused'')"
  have v: "ServerVersion (client ?s) = Inl ''connection refused''
           \<or> ServerVersion (client ?s) = Inr None"
    by (simp add: example_service_def NewService_def)
  have l: "Nodes_List (client ?s) = Inr []" and n: "clusterName ?s = ''test-cluster''"
    by (simp_all add: example_service_def NewService_def)
  from version_failure_is_not_fatal [OF v, of example_clock]
  show ?thesis
    unfolding l n by auto
qed

end
